theory Spec2Isabelle
  imports
    Complex_Main
    "HOL-Library.Char_ord"
    "HOL-Library.List_Lexorder"
    "HOL-Library.Product_Lexorder"
begin

section \<open>Python string primitives used by pst2t\_summarize.py\<close>

text \<open>
  A string is a list of code points below 256, one \<open>char\<close> each; text with higher code
  points is outside the model. On this range \<open>str.isspace\<close> holds of tab, LF, VT, FF,
  CR, FS, GS, RS, US, space, NEL (0x85) and the no-break space (0xA0), and \<open>str.isdigit\<close>
  of the ten decimal digits and of the superscripts two, three and one (0xB2, 0xB3,
  0xB9), which are digits but not decimals.
\<close>

definition TAB :: char where
  "TAB = CHR 0x09"

definition NL :: char where
  "NL = CHR 0x0A"

definition is_space :: "char \<Rightarrow> bool" where
  "is_space c = (c \<in> set [CHR 0x09, CHR 0x0A, CHR 0x0B, CHR 0x0C, CHR 0x0D,
                            CHR 0x1C, CHR 0x1D, CHR 0x1E, CHR 0x1F, CHR 0x20,
                            CHR 0x85, CHR 0xA0])"

definition is_decimal_char :: "char \<Rightarrow> bool" where
  "is_decimal_char c = (c \<in> set ''0123456789'')"

definition is_digit_char :: "char \<Rightarrow> bool" where
  "is_digit_char c = (is_decimal_char c \<or> c \<in> set [CHR 0xB2, CHR 0xB3, CHR 0xB9])"

text \<open>\<open>s.strip(chars)\<close>: drop the characters satisfying \<open>p\<close> from both ends.\<close>

definition strip_chars :: "(char \<Rightarrow> bool) \<Rightarrow> string \<Rightarrow> string" where
  "strip_chars p s = rev (dropWhile p (rev (dropWhile p s)))"

definition strip :: "string \<Rightarrow> string" where
  "strip s = strip_chars is_space s"

text \<open>\<open>s.rstrip('\n')\<close>\<close>

definition rstrip_nl :: "string \<Rightarrow> string" where
  "rstrip_nl s = rev (dropWhile (\<lambda>c. c = NL) (rev s))"

text \<open>\<open>s.split(sep)\<close> with a one-character separator: never empty, keeps empty fields.\<close>

fun split_on :: "char \<Rightarrow> string \<Rightarrow> string list" where
  "split_on sep [] = [[]]"
| "split_on sep (c # cs) =
     (if c = sep then [] # split_on sep cs
      else (case split_on sep cs of
              [] \<Rightarrow> [[c]]
            | w # ws \<Rightarrow> (c # w) # ws))"

text \<open>\<open>s.split()\<close>: split on runs of whitespace, no empty tokens.\<close>

fun split_ws_acc :: "string \<Rightarrow> string \<Rightarrow> string list" where
  "split_ws_acc cur [] = (if cur = [] then [] else [rev cur])"
| "split_ws_acc cur (c # cs) =
     (if is_space c then (if cur = [] then split_ws_acc [] cs
                          else rev cur # split_ws_acc [] cs)
      else split_ws_acc (c # cur) cs)"

definition split_ws :: "string \<Rightarrow> string list" where
  "split_ws s = split_ws_acc [] s"

text \<open>\<open>s.isdigit()\<close>: non-empty and every character a digit.\<close>

definition isdigit :: "string \<Rightarrow> bool" where
  "isdigit s = (s \<noteq> [] \<and> list_all is_digit_char s)"

text \<open>\<open>s.isdecimal()\<close>: non-empty and every character a decimal digit.\<close>

definition isdecimal :: "string \<Rightarrow> bool" where
  "isdecimal s = (s \<noteq> [] \<and> list_all is_decimal_char s)"

definition digit_val :: "char \<Rightarrow> int" where
  "digit_val c = int (of_char c) - 48"

text \<open>The value of a string of decimal digits.\<close>

definition int_of_digits :: "string \<Rightarrow> int" where
  "int_of_digits s = foldl (\<lambda>a c. 10 * a + digit_val c) 0 s"

text \<open>
  \<open>int(s)\<close>, with \<open>None\<close> for its \<open>ValueError\<close>. The whitespace \<open>int\<close> skips at both ends
  is tab, LF, VT, FF, CR, space, NEL and the no-break space, not FS to US; one sign may
  follow; the rest must be decimal digits, in groups separated by single underscores.
  More than 4300 digits are refused (the default \<open>sys.int_info.default_max_str_digits\<close>
  of CPython 3.11 and later).
\<close>

definition is_int_space :: "char \<Rightarrow> bool" where
  "is_int_space c = (c \<in> set [CHR 0x09, CHR 0x0A, CHR 0x0B, CHR 0x0C, CHR 0x0D, CHR 0x20,
                                CHR 0x85, CHR 0xA0])"

definition int_max_str_digits :: nat where
  "int_max_str_digits = 4300"

definition py_int :: "string \<Rightarrow> int option" where
  "py_int s =
     (let t = strip_chars is_int_space s;
          neg = (t \<noteq> [] \<and> hd t = CHR ''-'');
          body = (if t \<noteq> [] \<and> (hd t = CHR ''-'' \<or> hd t = CHR ''+'') then tl t else t);
          digits = filter (\<lambda>c. c \<noteq> CHR ''_'') body
      in if list_all (\<lambda>g. g \<noteq> [] \<and> list_all is_decimal_char g) (split_on (CHR ''_'') body)
            \<and> length digits \<le> int_max_str_digits
         then Some ((if neg then - 1 else 1) * int_of_digits digits)
         else None)"

text \<open>\<open>s.startswith(p)\<close> and \<open>p in s\<close>.\<close>

definition startswith :: "string \<Rightarrow> string \<Rightarrow> bool" where
  "startswith s p = (take (length p) s = p)"

fun contains :: "string \<Rightarrow> string \<Rightarrow> bool" where
  "contains [] p = (p = [])"
| "contains (c # cs) p = (startswith (c # cs) p \<or> contains cs p)"

section \<open>Files as the script sees them\<close>

text \<open>
  A text file that the script iterates line by line is absent, unreadable (opening or
  decoding raises), or the list of lines the file iterator yields (each with its line
  terminator).
\<close>

datatype text_file = NoFile | Unreadable | Lines "string list"

definition isfile :: "text_file \<Rightarrow> bool" where
  "isfile f = (f \<noteq> NoFile)"

section \<open>Flagstat extractor: \<open>parse_flagstat_primary\<close>\<close>

definition primary_marked :: "string \<Rightarrow> bool" where
  "primary_marked line =
     (let parts = split_on TAB (rstrip_nl line)
      in length parts \<ge> 3 \<and> strip (parts ! 2) = ''primary'')"

definition count_field :: "string \<Rightarrow> string" where
  "count_field line = strip (hd (split_on TAB (rstrip_nl line)))"

text \<open>
  The loop over the lines. A marked line whose count fails \<open>isdigit\<close> is passed over. On
  the first marked line whose count passes, \<open>int(val)\<close> is returned; when \<open>int\<close> raises
  (a superscript digit, more than 4300 digits) the handler around the loop logs a
  warning and the function returns \<open>None\<close>.
\<close>

fun scan_primary :: "string list \<Rightarrow> int option" where
  "scan_primary [] = None"
| "scan_primary (line # rest) =
     (if primary_marked line
      then (if isdigit (count_field line) then py_int (count_field line)
            else scan_primary rest)
      else scan_primary rest)"

fun parse_flagstat_primary :: "text_file \<Rightarrow> int option" where
  "parse_flagstat_primary NoFile = None"
| "parse_flagstat_primary Unreadable = None"
| "parse_flagstat_primary (Lines ls) = scan_primary ls"

section \<open>Filtering summary\<close>

text \<open>
  The flagstat files of a sample, one per key of the mapping in \<open>collect_primary_reads\<close>,
  and what \<open>read_pathseq_metrics_table\<close> returns for the two metrics files: \<open>None\<close>, or
  the first data row as an integer series (column name, count). Counts are mathematical
  integers; the 64-bit range of the pandas column is not modelled.
\<close>

type_synonym series = "(string \<times> int) list"

record filter_stats =
  flagstat :: text_file
  paired_aln :: text_file
  paired_unaln :: text_file
  unpaired_aln :: text_file
  unpaired_unaln :: text_file
  unaligned_metrics :: "series option"
  excluded_metrics :: "series option"

text \<open>\<open>d.get(k, default)\<close> on an insertion-ordered dictionary or a series.\<close>

definition get_or :: "series \<Rightarrow> string \<Rightarrow> int \<Rightarrow> int" where
  "get_or s k d = (case map_of s k of None \<Rightarrow> d | Some v \<Rightarrow> v)"

text \<open>\<open>fillna(0)\<close> on one integer entry: a missing value becomes 0.\<close>

definition fill_zero :: "int option \<Rightarrow> int" where
  "fill_zero v = (case v of None \<Rightarrow> 0 | Some x \<Rightarrow> x)"

definition flagstat_mapping :: "filter_stats \<Rightarrow> (string \<times> text_file) list" where
  "flagstat_mapping fs =
     [(''PRIMARY_READS'', flagstat fs),
      (''T2T_ALIGNED_PAIRED_PRIMARY'', paired_aln fs),
      (''T2T_UNALIGNED_PAIRED_PRIMARY'', paired_unaln fs),
      (''T2T_ALIGNED_UNPAIRED_PRIMARY'', unpaired_aln fs),
      (''T2T_UNALIGNED_UNPAIRED_PRIMARY'', unpaired_unaln fs)]"

definition flagstat_entry :: "string \<times> text_file \<Rightarrow> series" where
  "flagstat_entry kf =
     (if isfile (snd kf)
      then (case parse_flagstat_primary (snd kf) of
              None \<Rightarrow> []
            | Some v \<Rightarrow> [(fst kf, v)])
      else [])"

definition collect_primary_reads :: "filter_stats \<Rightarrow> series" where
  "collect_primary_reads fs =
     (let rs = concat (map flagstat_entry (flagstat_mapping fs))
      in rs @ [(''T2T_UNALIGNED_TOTAL_READS'',
                get_or rs ''T2T_UNALIGNED_PAIRED_PRIMARY'' 0
                + get_or rs ''T2T_UNALIGNED_UNPAIRED_PRIMARY'' 0)])"

definition PATHSEQ_COLS :: "string list" where
  "PATHSEQ_COLS =
     [''PRIMARY_READS'',
      ''READS_AFTER_PREALIGNED_HOST_FILTER'',
      ''READS_AFTER_QUALITY_AND_COMPLEXITY_FILTER'',
      ''READS_AFTER_HOST_FILTER'',
      ''READS_AFTER_DEDUPLICATION'',
      ''FINAL_PAIRED_READS'',
      ''FINAL_UNPAIRED_READS'',
      ''FINAL_TOTAL_READS'']"

definition prefixed :: "string \<Rightarrow> string \<Rightarrow> string" where
  "prefixed kind col = kind @ ''_'' @ col"

text \<open>An absent metrics table counts as the empty series.\<close>

definition metrics_series :: "series option \<Rightarrow> series" where
  "metrics_series m = (case m of None \<Rightarrow> [] | Some s \<Rightarrow> s)"

definition kind_counters :: "string \<Rightarrow> series \<Rightarrow> series" where
  "kind_counters kind s = map (\<lambda>col. (prefixed kind col, get_or s col 0)) PATHSEQ_COLS"

definition collect_pathseq_metrics :: "filter_stats \<Rightarrow> series" where
  "collect_pathseq_metrics fs =
     (let un = metrics_series (unaligned_metrics fs);
          ex = metrics_series (excluded_metrics fs)
      in kind_counters ''UNALIGNED'' un
         @ kind_counters ''EXCLUDED'' ex
         @ map (\<lambda>col. (prefixed ''QCFILTER'' col, get_or un col 0 + get_or ex col 0))
               PATHSEQ_COLS)"

definition FILTER_SUMMARY_ORDER :: "string list" where
  "FILTER_SUMMARY_ORDER =
     [''PRIMARY_READS'']
     @ concat (map (\<lambda>kind. map (prefixed kind) PATHSEQ_COLS)
                   [''QCFILTER'', ''UNALIGNED'', ''EXCLUDED''])
     @ [''T2T_UNALIGNED_TOTAL_READS'', ''T2T_UNALIGNED_PAIRED_PRIMARY'',
        ''T2T_UNALIGNED_UNPAIRED_PRIMARY'']"

text \<open>
  \<open>merged.reindex(FILTER_SUMMARY_ORDER).fillna(0).astype(int)\<close>: one entry per key of the
  order, in that order; a key the merged series lacks gets 0.
\<close>

definition reindex_fill :: "string list \<Rightarrow> series \<Rightarrow> series" where
  "reindex_fill order s = map (\<lambda>k. (k, get_or s k 0)) order"

definition filtering_summary :: "filter_stats \<Rightarrow> series" where
  "filtering_summary fs =
     reindex_fill FILTER_SUMMARY_ORDER (collect_primary_reads fs @ collect_pathseq_metrics fs)"

section \<open>Tables as pandas reads them\<close>

text \<open>
  \<open>pd.read_table\<close> either raises or yields a frame: a column count and rows of cells,
  a cell being its text or missing (NaN). \<open>pd.to_numeric(errors='coerce')\<close> is a parameter
  \<open>num\<close> of the model, from a cell's text to a number or \<open>None\<close> (NaN).

  Numbers are rationals and the arithmetic on them is exact. The program holds a
  numeric column as \<open>int64\<close> when every cell of it parses as an integer, and as \<open>float64\<close>
  otherwise; its sums and products wrap modulo \<open>2^64\<close> on the first and are rounded to
  a double on the second. The exact arithmetic is the program's on both kinds of column
  as long as the values are whole numbers and every intermediate result stays below
  \<open>2^53\<close> in magnitude (\<open>exact_counts\<close> below); statements about the values of the counts
  are made on that range.
\<close>

type_synonym cell = "string option"

type_synonym numeric = "string \<Rightarrow> rat option"

datatype frame = Unparsable | Frame nat "cell list list"

datatype error = FileNotFoundError | ValueError | RuntimeError | ParserError | IndexError

definition cell_at :: "cell list \<Rightarrow> nat \<Rightarrow> cell" where
  "cell_at r j = (if j < length r then r ! j else None)"

definition coerce :: "numeric \<Rightarrow> cell \<Rightarrow> rat option" where
  "coerce num c = (case c of None \<Rightarrow> None | Some t \<Rightarrow> num t)"

definition fillna :: "rat \<Rightarrow> rat option \<Rightarrow> rat" where
  "fillna d v = (case v of None \<Rightarrow> d | Some q \<Rightarrow> q)"

text \<open>\<open>int(x)\<close> and \<open>astype(int)\<close> on a number: truncation towards zero.\<close>

definition trunc :: "rat \<Rightarrow> int" where
  "trunc q = (if 0 \<le> q then \<lfloor>q\<rfloor> else \<lceil>q\<rceil>)"

section \<open>First classifier: \<open>load_kraken_report\<close> and \<open>merge_kraken_reports\<close>\<close>

datatype report_file = Missing | EmptyFile | Report frame

definition present :: "report_file \<Rightarrow> bool" where
  "present f = (f \<noteq> Missing)"

record kraken_rec =
  pct_reads :: rat
  reads_clade :: rat
  reads_taxon :: rat
  minimizers_count :: rat
  minimizers_distinct :: rat
  rank :: cell
  tax_id :: rat
  name :: cell

definition kraken_row :: "numeric \<Rightarrow> cell list \<Rightarrow> kraken_rec" where
  "kraken_row num r =
     \<lparr> pct_reads = fillna 0 (coerce num (cell_at r 0)),
       reads_clade = fillna 0 (coerce num (cell_at r 1)),
       reads_taxon = fillna 0 (coerce num (cell_at r 2)),
       minimizers_count = fillna 0 (coerce num (cell_at r 3)),
       minimizers_distinct = fillna 0 (coerce num (cell_at r 4)),
       rank = cell_at r 5,
       tax_id = fillna 0 (coerce num (cell_at r 6)),
       name = map_option strip (cell_at r 7) \<rparr>"

fun load_kraken_report :: "numeric \<Rightarrow> report_file \<Rightarrow> error + kraken_rec list" where
  "load_kraken_report num Missing = Inl FileNotFoundError"
| "load_kraken_report num EmptyFile = Inr []"
| "load_kraken_report num (Report Unparsable) = Inl ParserError"
| "load_kraken_report num (Report (Frame n rows)) =
     (if n < 8 then Inl ValueError else Inr (map (kraken_row num) rows))"

text \<open>
  \<open>2 * col\<close> on an \<open>int64\<close> column: the product wraps into the signed 64-bit range.
\<close>

definition int64_wrap :: "int \<Rightarrow> int" where
  "int64_wrap v = (v + 2 ^ 63) mod 2 ^ 64 - 2 ^ 63"

definition double_int64 :: "int \<Rightarrow> int" where
  "double_int64 v = int64_wrap (2 * v)"

text \<open>
  A whole number, and the rows whose counts keep the arithmetic of the merge exact:
  whole counts whose doubled absolute sums stay below \<open>2^53\<close>, and taxonomic ids below
  \<open>2^53\<close> in magnitude, so that an id is the same number in either kind of column.
\<close>

definition whole_number :: "rat \<Rightarrow> bool" where
  "whole_number q = (of_int \<lfloor>q\<rfloor> = q)"

definition exact_counts :: "kraken_rec list \<Rightarrow> bool" where
  "exact_counts rows =
     (list_all (\<lambda>r. whole_number (reads_clade r) \<and> whole_number (reads_taxon r)) rows
      \<and> list_all (\<lambda>r. \<bar>tax_id r\<bar> < 2 ^ 53) rows
      \<and> 2 * sum_list (map (\<lambda>r. \<bar>reads_clade r\<bar>) rows) < 2 ^ 53
      \<and> 2 * sum_list (map (\<lambda>r. \<bar>reads_taxon r\<bar>) rows) < 2 ^ 53)"

text \<open>
  The two doublings of one report, as exact products: on \<open>exact_counts\<close> rows this is
  what the program computes, whichever kind of column holds the counts.
\<close>

definition double_reads :: "kraken_rec \<Rightarrow> kraken_rec" where
  "double_reads r = r\<lparr> reads_clade := 2 * reads_clade r, reads_taxon := 2 * reads_taxon r \<rparr>"

text \<open>One \<open>if present[i]:\<close> block: load, double, append; nothing when the file is absent.\<close>

definition load_doubled :: "numeric \<Rightarrow> report_file \<Rightarrow> error + kraken_rec list" where
  "load_doubled num f =
     (if present f
      then (case load_kraken_report num f of
              Inl e \<Rightarrow> Inl e
            | Inr df \<Rightarrow> Inr (map double_reads df))
      else Inr [])"

text \<open>
  \<open>groupby(['name','tax_id','rank'], as_index=False)[...].sum()\<close>: rows whose name or rank
  is missing are dropped (\<open>dropna\<close> is on by default), the groups come sorted by key. The
  two minimizer sums are computed by the source and dropped by its final column
  selection, so the model does not carry them.
\<close>

type_synonym taxon_key = "string \<times> rat \<times> string"

definition row_key :: "kraken_rec \<Rightarrow> taxon_key option" where
  "row_key r =
     (case name r of
        None \<Rightarrow> None
      | Some n \<Rightarrow> (case rank r of None \<Rightarrow> None | Some k \<Rightarrow> Some (n, tax_id r, k)))"

definition group_keys :: "kraken_rec list \<Rightarrow> taxon_key list" where
  "group_keys rows = sort (remdups (map the (filter (\<lambda>k. k \<noteq> None) (map row_key rows))))"

definition group_sum :: "(kraken_rec \<Rightarrow> rat) \<Rightarrow> kraken_rec list \<Rightarrow> taxon_key \<Rightarrow> rat" where
  "group_sum col rows k = sum_list (map col (filter (\<lambda>r. row_key r = Some k) rows))"

record grouped =
  g_name :: string
  g_tax_id :: rat
  g_rank :: string
  g_reads_clade :: rat
  g_reads_taxon :: rat

definition groupby_sum :: "kraken_rec list \<Rightarrow> grouped list" where
  "groupby_sum rows =
     map (\<lambda>k. \<lparr> g_name = fst k, g_tax_id = fst (snd k), g_rank = snd (snd k),
                 g_reads_clade = group_sum reads_clade rows k,
                 g_reads_taxon = group_sum reads_taxon rows k \<rparr>)
         (group_keys rows)"

text \<open>
  \<open>Series.round(4)\<close> rounds the value scaled by \<open>10^4\<close> to the nearest integer, halves to
  the even one, and scales back. The program does this on doubles; \<open>round4\<close> is the same
  rounding on the exact quotient. The two can differ by one unit of the fourth decimal
  where the exact quotient is at or next to a tie, so \<open>round4\<close> serves for bounds on
  \<open>pct_reads\<close>, not for its exact value.
\<close>

definition rint :: "rat \<Rightarrow> int" where
  "rint q =
     (let f = \<lfloor>q\<rfloor>; d = q - of_int f
      in if d < 1 / 2 then f
         else if 1 / 2 < d then f + 1
         else if even f then f else f + 1)"

definition round4 :: "rat \<Rightarrow> rat" where
  "round4 q = of_int (rint (q * 10000)) / 10000"

record taxon_rec =
  out_pct_reads :: rat
  out_reads_clade :: rat
  out_reads_taxon :: rat
  out_rank :: string
  out_tax_id :: rat
  out_name :: string

text \<open>\<open>df.loc[df['tax_id'].isin([0,1]), 'reads_clade'].sum()\<close> on the grouped frame.\<close>

definition is_root_id :: "rat \<Rightarrow> bool" where
  "is_root_id t = (t = 0 \<or> t = 1)"

definition denominator :: "grouped list \<Rightarrow> rat" where
  "denominator g = sum_list (map g_reads_clade (filter (\<lambda>r. is_root_id (g_tax_id r)) g))"

definition with_pct :: "rat \<Rightarrow> grouped \<Rightarrow> taxon_rec" where
  "with_pct total_reads r =
     \<lparr> out_pct_reads =
         (if total_reads > 0 then round4 (100 * g_reads_clade r / total_reads) else 0),
       out_reads_clade = g_reads_clade r,
       out_reads_taxon = g_reads_taxon r,
       out_rank = g_rank r,
       out_tax_id = g_tax_id r,
       out_name = g_name r \<rparr>"

definition merged_table :: "kraken_rec list \<Rightarrow> taxon_rec list" where
  "merged_table rows = (let g = groupby_sum rows in map (with_pct (denominator g)) g)"

definition merge_kraken_reports ::
  "numeric \<Rightarrow> report_file \<Rightarrow> report_file \<Rightarrow> error + taxon_rec list" where
  "merge_kraken_reports num paired unpaired =
     (if \<not> present paired \<and> \<not> present unpaired then Inl FileNotFoundError
      else (case load_doubled num paired of
              Inl e \<Rightarrow> Inl e
            | Inr dfp \<Rightarrow>
                (case load_doubled num unpaired of
                   Inl e \<Rightarrow> Inl e
                 | Inr dfu \<Rightarrow> Inr (merged_table (dfp @ dfu)))))"

text \<open>
  For stating properties: the rows of one report as loaded, before doubling (none when
  the file is absent), and the grouping key of a row of the merged table.
\<close>

definition input_rows :: "numeric \<Rightarrow> report_file \<Rightarrow> error + kraken_rec list" where
  "input_rows num f = (if present f then load_kraken_report num f else Inr [])"

definition out_key :: "taxon_rec \<Rightarrow> taxon_key" where
  "out_key r = (out_name r, out_tax_id r, out_rank r)"

text \<open>\<open>df.loc[sel(df['tax_id']), 'reads_clade'].sum()\<close> on the merged table.\<close>

definition clade_sum :: "(rat \<Rightarrow> bool) \<Rightarrow> taxon_rec list \<Rightarrow> rat" where
  "clade_sum sel df = sum_list (map out_reads_clade (filter (\<lambda>r. sel (out_tax_id r)) df))"

text \<open>The rows of the merged table whose \<open>tax_id\<close> is neither 0 nor 1.\<close>

definition non_root_rows :: "taxon_rec list \<Rightarrow> taxon_rec list" where
  "non_root_rows df = filter (\<lambda>r. \<not> is_root_id (out_tax_id r)) df"

section \<open>Second classifier: \<open>load_metaphlan_table\<close>\<close>

text \<open>
  The report is absent, or its lines (for the header scan) together with the frame
  \<open>pd.read_table(path, comment='#', header=None)\<close> builds from it.
\<close>

datatype mpa_file = NoReport | Mpa "string list" frame

record clade_rec =
  clade_name :: string
  clade_taxid :: int
  relative_abundance :: rat
  coverage :: rat
  estimated_number_of_reads_from_the_clade :: rat

text \<open>\<open>astype(str)\<close> turns a missing name into the text \<open>nan\<close>.\<close>

definition clade_row :: "numeric \<Rightarrow> cell list \<Rightarrow> clade_rec" where
  "clade_row num r =
     \<lparr> clade_name = (case cell_at r 0 of None \<Rightarrow> ''nan'' | Some t \<Rightarrow> t),
       clade_taxid = trunc (fillna (- 1) (coerce num (cell_at r 1))),
       relative_abundance = fillna 0 (coerce num (cell_at r 2)),
       coverage = fillna 0 (coerce num (cell_at r 3)),
       estimated_number_of_reads_from_the_clade = fillna 0 (coerce num (cell_at r 4)) \<rparr>"

text \<open>
  Fewer than five columns raise \<open>RuntimeError\<close>; more than five make the assignment of
  the five column names raise \<open>ValueError\<close>.
\<close>

fun load_metaphlan_table :: "numeric \<Rightarrow> frame \<Rightarrow> error + clade_rec list" where
  "load_metaphlan_table num Unparsable = Inl ParserError"
| "load_metaphlan_table num (Frame n rows) =
     (if n < 5 then Inl RuntimeError
      else if n \<noteq> 5 then Inl ValueError
      else Inr (map (clade_row num) rows))"

section \<open>Classification summary: \<open>summarize_classification\<close>\<close>

definition clade_total :: "(rat \<Rightarrow> bool) \<Rightarrow> taxon_rec list \<Rightarrow> int" where
  "clade_total sel df = trunc (clade_sum sel df)"

definition kraken_totals :: "taxon_rec list \<Rightarrow> series" where
  "kraken_totals df =
     [(''TOTAL_READS_TESTED'', clade_total is_root_id df),
      (''UNCLASSIFIED_TOTAL_K2'', clade_total (\<lambda>t. t = 0) df),
      (''CLASSIFIED_TOTAL_K2'', clade_total (\<lambda>t. t = 1) df),
      (''MICROBIAL_TOTAL_K2'', clade_total (\<lambda>t. t \<in> set [2, 4751, 2157, 10239]) df),
      (''HUMAN_TOTAL_K2'', clade_total (\<lambda>t. t = 9606) df)]"

text \<open>
  The inner loop over the tokens of a header line that contains \<open>reads processed\<close>:
  \<open>parts[i+1]\<close> and \<open>parts[i+2]\<close> raise \<open>IndexError\<close> past the end, and \<open>int(p)\<close> raises
  \<open>ValueError\<close> on a token that passes \<open>isdigit\<close> and is no decimal number. Neither is
  caught.
\<close>

fun find_total :: "string list \<Rightarrow> error + int option" where
  "find_total [] = Inr None"
| "find_total (p # ps) =
     (if isdigit p
      then (case ps of
              [] \<Rightarrow> Inl IndexError
            | q # qs \<Rightarrow>
                (if q = ''reads''
                 then (case qs of
                         [] \<Rightarrow> Inl IndexError
                       | r # _ \<Rightarrow>
                           (if startswith r ''processed''
                            then (case py_int p of
                                    None \<Rightarrow> Inl ValueError
                                  | Some v \<Rightarrow> Inr (Some v))
                            else find_total ps))
                 else find_total ps))
      else find_total ps)"

definition header_tokens :: "string \<Rightarrow> string list" where
  "header_tokens line =
     split_ws (strip_chars (\<lambda>c. c \<in> set [CHR ''#'', CHR '' '', NL]) line)"

definition classified_of :: "string \<Rightarrow> int option" where
  "classified_of line =
     (case split_on (CHR '':'') line of
        _ # x # _ \<Rightarrow> py_int x
      | _ \<Rightarrow> None)"

text \<open>
  The scan of the leading comment block, with the two running values \<open>total_reads\<close> and
  \<open>classified_reads\<close>; it stops at the first line that does not start with \<open>#\<close>.
\<close>

fun scan_header :: "string list \<Rightarrow> int \<Rightarrow> int \<Rightarrow> error + int \<times> int" where
  "scan_header [] total_reads classified_reads = Inr (total_reads, classified_reads)"
| "scan_header (line # rest) total_reads classified_reads =
     (if \<not> startswith line ''#'' then Inr (total_reads, classified_reads)
      else (case (if contains line ''reads processed'' then find_total (header_tokens line)
                  else Inr None) of
              Inl e \<Rightarrow> Inl e
            | Inr found \<Rightarrow>
                scan_header rest
                  (case found of None \<Rightarrow> total_reads | Some v \<Rightarrow> v)
                  (if startswith line ''#estimated_reads_mapped_to_known_clades:''
                   then (case classified_of line of None \<Rightarrow> classified_reads | Some v \<Rightarrow> v)
                   else classified_reads)))"

text \<open>The leading comment block of a report: the lines the header scan visits.\<close>

definition header_block :: "string list \<Rightarrow> string list" where
  "header_block ls = takeWhile (\<lambda>l. startswith l ''#'') ls"

definition kingdom_reads :: "string \<Rightarrow> clade_rec list \<Rightarrow> int" where
  "kingdom_reads pre df =
     trunc (sum_list (map estimated_number_of_reads_from_the_clade
                          (filter (\<lambda>r. startswith (clade_name r) pre) df)))"

definition mpa_totals :: "int \<Rightarrow> int \<Rightarrow> clade_rec list \<Rightarrow> series" where
  "mpa_totals total_reads classified_reads df =
     [(''TOTAL_READS_MPA'', total_reads),
      (''CLASSIFIED_READS_MPA'', classified_reads),
      (''UNCLASSIFIED_READS_MPA'', max 0 (total_reads - classified_reads)),
      (''BACTERIAL_READS_MPA'', kingdom_reads ''k__Bacteria'' df),
      (''ARCHAEAL_READS_MPA'', kingdom_reads ''k__Archaea'' df)]"

text \<open>The first \<open>try\<close> block: only \<open>FileNotFoundError\<close> is caught.\<close>

definition kraken_summary :: "numeric \<Rightarrow> report_file \<Rightarrow> report_file \<Rightarrow> error + series" where
  "kraken_summary num paired unpaired =
     (case merge_kraken_reports num paired unpaired of
        Inl e \<Rightarrow> (if e = FileNotFoundError then Inr [] else Inl e)
      | Inr df_k \<Rightarrow> Inr (kraken_totals df_k))"

definition mpa_summary :: "numeric \<Rightarrow> mpa_file \<Rightarrow> error + series" where
  "mpa_summary num mpa =
     (case mpa of
        NoReport \<Rightarrow> Inr []
      | Mpa ls fr \<Rightarrow>
          (case scan_header ls 0 0 of
             Inl e \<Rightarrow> Inl e
           | Inr tc \<Rightarrow>
               (case load_metaphlan_table num fr of
                  Inl e \<Rightarrow> Inl e
                | Inr df_m \<Rightarrow> Inr (mpa_totals (fst tc) (snd tc) df_m))))"

definition summarize_classification ::
  "numeric \<Rightarrow> report_file \<Rightarrow> report_file \<Rightarrow> mpa_file \<Rightarrow> error + series" where
  "summarize_classification num paired unpaired mpa =
     (case kraken_summary num paired unpaired of
        Inl e \<Rightarrow> Inl e
      | Inr k2 \<Rightarrow>
          (case mpa_summary num mpa of
             Inl e \<Rightarrow> Inl e
           | Inr m \<Rightarrow> Inr (k2 @ m)))"

section \<open>Normalizer: \<open>write_normalized_tables\<close>\<close>

record kraken_norm =
  n_name :: string
  n_tax_id :: rat
  n_rank :: string
  n_reads_clade :: rat
  n_reads_taxon :: rat
  reads_clade_per_million :: rat
  reads_taxon_per_million :: rat
  n_pct_reads :: rat

record clade_norm =
  n_clade_name :: string
  n_clade_taxid :: int
  n_estimated_number_of_reads_from_the_clade :: rat
  estimated_number_of_reads_from_the_clade_per_million :: rat
  n_relative_abundance :: rat
  n_coverage :: rat

definition per_million :: "int \<Rightarrow> rat \<Rightarrow> rat" where
  "per_million primary_reads x = 1000000 * x / of_int primary_reads"

definition kraken_rpm :: "int \<Rightarrow> taxon_rec \<Rightarrow> kraken_norm" where
  "kraken_rpm primary_reads r =
     \<lparr> n_name = out_name r, n_tax_id = out_tax_id r, n_rank = out_rank r,
       n_reads_clade = out_reads_clade r, n_reads_taxon = out_reads_taxon r,
       reads_clade_per_million = per_million primary_reads (out_reads_clade r),
       reads_taxon_per_million = per_million primary_reads (out_reads_taxon r),
       n_pct_reads = out_pct_reads r \<rparr>"

definition clade_rpm :: "int \<Rightarrow> clade_rec \<Rightarrow> clade_norm" where
  "clade_rpm primary_reads r =
     \<lparr> n_clade_name = clade_name r, n_clade_taxid = clade_taxid r,
       n_estimated_number_of_reads_from_the_clade = estimated_number_of_reads_from_the_clade r,
       estimated_number_of_reads_from_the_clade_per_million =
         per_million primary_reads (estimated_number_of_reads_from_the_clade r),
       n_relative_abundance = relative_abundance r, n_coverage = coverage r \<rparr>"

text \<open>
  The files the normalizer writes: \<open>sample.kraken.txt\<close> and \<open>sample.metaphlan.txt\<close>, each
  \<open>None\<close> when it is not written. Every exception inside either \<open>try\<close> block is caught
  and logged.
\<close>

record normalized =
  kraken_txt :: "kraken_norm list option"
  metaphlan_txt :: "clade_norm list option"

definition kraken_normalized ::
  "numeric \<Rightarrow> report_file \<Rightarrow> report_file \<Rightarrow> int \<Rightarrow> kraken_norm list option" where
  "kraken_normalized num paired unpaired primary_reads =
     (if present paired \<or> present unpaired
      then (case merge_kraken_reports num paired unpaired of
              Inl e \<Rightarrow> None
            | Inr dfk \<Rightarrow> Some (map (kraken_rpm primary_reads) dfk))
      else None)"

definition mpa_normalized :: "numeric \<Rightarrow> mpa_file \<Rightarrow> int \<Rightarrow> clade_norm list option" where
  "mpa_normalized num mpa primary_reads =
     (case mpa of
        NoReport \<Rightarrow> None
      | Mpa ls fr \<Rightarrow>
          (case load_metaphlan_table num fr of
             Inl e \<Rightarrow> None
           | Inr dfm \<Rightarrow> Some (map (clade_rpm primary_reads) dfm)))"

definition write_normalized_tables ::
  "numeric \<Rightarrow> report_file \<Rightarrow> report_file \<Rightarrow> mpa_file \<Rightarrow> int \<Rightarrow> normalized" where
  "write_normalized_tables num paired unpaired mpa primary_reads =
     (if primary_reads \<le> 0 then \<lparr> kraken_txt = None, metaphlan_txt = None \<rparr>
      else \<lparr> kraken_txt = kraken_normalized num paired unpaired primary_reads,
             metaphlan_txt = mpa_normalized num mpa primary_reads \<rparr>)"

section \<open>The invocation: \<open>main\<close> under the top-level handler\<close>

text \<open>
  One sample's inputs, and what an invocation leaves behind: a fatal exit with nothing
  written (an exception escaped \<open>main\<close> before the summary was written), or the summary
  row and the normalized tables.
\<close>

record sample_inputs =
  filter_dir :: filter_stats
  paired_report :: report_file
  unpaired_report :: report_file
  metaphlan_report :: mpa_file

datatype outcome = Fatal error | Completed series normalized

definition main :: "numeric \<Rightarrow> sample_inputs \<Rightarrow> outcome" where
  "main num inp =
     (let filt_row = filtering_summary (filter_dir inp);
          primary_reads = get_or filt_row ''PRIMARY_READS'' 0
      in case summarize_classification num (paired_report inp) (unpaired_report inp)
                (metaphlan_report inp) of
           Inl e \<Rightarrow> Fatal e
         | Inr class_row \<Rightarrow>
             Completed (filt_row @ class_row)
               (write_normalized_tables num (paired_report inp) (unpaired_report inp)
                  (metaphlan_report inp) primary_reads))"

section \<open>Example inputs\<close>

text \<open>One line of a tab-separated file, from its fields.\<close>

fun join_tab :: "string list \<Rightarrow> string" where
  "join_tab [] = []"
| "join_tab [x] = x"
| "join_tab (x # y # ys) = x @ [TAB] @ join_tab (y # ys)"

definition tsv_line :: "string list \<Rightarrow> string" where
  "tsv_line fs = join_tab fs @ [NL]"

text \<open>A flagstat file as samtools writes it, with the \<open>primary\<close> line second.\<close>

definition ex_flagstat :: text_file where
  "ex_flagstat =
     Lines [tsv_line [''120'', ''0'', ''total (QC-passed reads + QC-failed reads)''],
            tsv_line [''100'', ''0'', ''primary''],
            tsv_line [''20'', ''0'', ''secondary'']]"

text \<open>Two lines marked \<open>primary\<close>, the first with a count that is not a number.\<close>

definition ex_flagstat_two_marked :: "string list" where
  "ex_flagstat_two_marked =
     [tsv_line [''x'', ''0'', ''primary''], tsv_line [''5'', ''0'', ''primary'']]"

text \<open>
  Two lines marked \<open>primary\<close>, the first with the superscript two as its count: a digit
  that is no decimal.
\<close>

definition ex_flagstat_superscript :: "string list" where
  "ex_flagstat_superscript =
     [tsv_line [[CHR 0xB2], ''0'', ''primary''], tsv_line [''4'', ''0'', ''primary'']]"

text \<open>
  A filter-stats directory: all five flagstat files but one, the metrics of the
  \<open>unaligned\<close> stage, no metrics of the \<open>excluded\<close> stage.
\<close>

definition ex_filter_stats :: filter_stats where
  "ex_filter_stats =
     \<lparr> flagstat = ex_flagstat,
       paired_aln = Lines [tsv_line [''7'', ''0'', ''primary'']],
       paired_unaln = Lines [tsv_line [''30'', ''0'', ''primary'']],
       unpaired_aln = Lines [tsv_line [''3'', ''0'', ''primary'']],
       unpaired_unaln = NoFile,
       unaligned_metrics = Some [(''PRIMARY_READS'', 50), (''FINAL_TOTAL_READS'', 40)],
       excluded_metrics = None \<rparr>"

text \<open>
  An instance of the numeric coercion for the examples: unsigned decimal numbers, with
  or without a fraction.
\<close>

definition dec_fraction :: "string \<Rightarrow> rat" where
  "dec_fraction s = of_int (int_of_digits s) / 10 ^ length s"

definition dec_numeric :: numeric where
  "dec_numeric t =
     (case split_on (CHR ''.'') (strip t) of
        [a] \<Rightarrow> (if isdecimal a then Some (of_int (int_of_digits a)) else None)
      | [a, b] \<Rightarrow> (if isdecimal a \<and> isdecimal b
                   then Some (of_int (int_of_digits a) + dec_fraction b) else None)
      | _ \<Rightarrow> None)"

definition report_row :: "string list \<Rightarrow> cell list" where
  "report_row fs = map Some fs"

text \<open>A paired and an unpaired first-classifier report of one sample.\<close>

definition ex_paired :: report_file where
  "ex_paired = Report (Frame 8
     [report_row [''10.00'', ''10'', ''10'', ''0'', ''0'', ''U'', ''0'', ''unclassified''],
      report_row [''90.00'', ''90'', ''5'', ''0'', ''0'', ''R'', ''1'', ''root''],
      report_row [''80.00'', ''80'', ''80'', ''0'', ''0'', ''D'', ''2'', ''    Bacteria'']])"

definition ex_unpaired :: report_file where
  "ex_unpaired = Report (Frame 8
     [report_row [''100.00'', ''4'', ''1'', ''0'', ''0'', ''R'', ''1'', ''root''],
      report_row [''75.00'', ''3'', ''3'', ''0'', ''0'', ''D'', ''2'', ''    Bacteria'']])"

text \<open>A report whose only row has an empty rank field.\<close>

definition ex_paired_no_rank :: report_file where
  "ex_paired_no_rank = Report (Frame 8
     [[Some ''50.00'', Some ''10'', Some ''10'', Some ''0'', Some ''0'', None, Some ''2'',
       Some ''Bacteria'']])"

text \<open>A report with nested clades, and the table merged from it alone.\<close>

definition ex_nested :: report_file where
  "ex_nested = Report (Frame 8
     [report_row [''100.00'', ''10'', ''0'', ''0'', ''0'', ''R'', ''1'', ''root''],
      report_row [''100.00'', ''10'', ''0'', ''0'', ''0'', ''D'', ''2'', ''  Bacteria''],
      report_row [''100.00'', ''10'', ''10'', ''0'', ''0'', ''P'', ''1224'', ''    Pseudomonadota'']])"

definition ex_nested_merged :: "taxon_rec list" where
  "ex_nested_merged =
     [\<lparr> out_pct_reads = 100, out_reads_clade = 20, out_reads_taxon = 0, out_rank = ''D'',
         out_tax_id = 2, out_name = ''Bacteria'' \<rparr>,
      \<lparr> out_pct_reads = 100, out_reads_clade = 20, out_reads_taxon = 20, out_rank = ''P'',
         out_tax_id = 1224, out_name = ''Pseudomonadota'' \<rparr>,
      \<lparr> out_pct_reads = 100, out_reads_clade = 20, out_reads_taxon = 0, out_rank = ''R'',
         out_tax_id = 1, out_name = ''root'' \<rparr>]"

text \<open>\<open>ex_unpaired\<close> with both read counts of every row doubled.\<close>

definition ex_unpaired_twice :: report_file where
  "ex_unpaired_twice = Report (Frame 8
     [report_row [''100.00'', ''8'', ''2'', ''0'', ''0'', ''R'', ''1'', ''root''],
      report_row [''75.00'', ''6'', ''6'', ''0'', ''0'', ''D'', ''2'', ''    Bacteria'']])"

text \<open>The table merged from \<open>ex_paired\<close> and \<open>ex_unpaired\<close>.\<close>

definition ex_merged :: "taxon_rec list" where
  "ex_merged =
     [\<lparr> out_pct_reads = 798077 / 10000, out_reads_clade = 166, out_reads_taxon = 166,
         out_rank = ''D'', out_tax_id = 2, out_name = ''Bacteria'' \<rparr>,
      \<lparr> out_pct_reads = 451923 / 5000, out_reads_clade = 188, out_reads_taxon = 12,
         out_rank = ''R'', out_tax_id = 1, out_name = ''root'' \<rparr>,
      \<lparr> out_pct_reads = 48077 / 5000, out_reads_clade = 20, out_reads_taxon = 20,
         out_rank = ''U'', out_tax_id = 0, out_name = ''unclassified'' \<rparr>]"

text \<open>
  A second-classifier report: its lines and the frame read from it. The header gives 1000
  reads processed and 1200 reads mapped to known clades; the second row has a taxid
  path and an abundance that are not numbers, the third a coverage and a read count
  that are not numbers.
\<close>

definition ex_mpa_lines :: "string list" where
  "ex_mpa_lines =
     [''#mpa_vJun23_CHOCOPhlAnSGB_202403'' @ [NL],
      ''#1000 reads processed'' @ [NL],
      ''#SampleID'' @ [TAB] @ ''Metaphlan_Analysis'' @ [NL],
      ''#estimated_reads_mapped_to_known_clades:1200'' @ [NL],
      tsv_line [''#clade_name'', ''clade_taxid'', ''relative_abundance'', ''coverage'',
                ''estimated_number_of_reads_from_the_clade''],
      tsv_line [''k__Bacteria'', ''2'', ''100.0'', ''0.5'', ''700''],
      tsv_line [''k__Bacteria|p__Firmicutes'', ''2|1239'', ''n/a'', ''0.25'', ''420''],
      tsv_line [''k__Archaea'', ''2157'', ''0.0'', ''-'', ''?'']]"

definition ex_mpa_rows :: "cell list list" where
  "ex_mpa_rows =
     [report_row [''k__Bacteria'', ''2'', ''100.0'', ''0.5'', ''700''],
      report_row [''k__Bacteria|p__Firmicutes'', ''2|1239'', ''n/a'', ''0.25'', ''420''],
      report_row [''k__Archaea'', ''2157'', ''0.0'', ''-'', ''?'']]"

definition ex_mpa_frame :: frame where
  "ex_mpa_frame = Frame 5 ex_mpa_rows"

definition ex_mpa :: mpa_file where
  "ex_mpa = Mpa ex_mpa_lines ex_mpa_frame"

text \<open>The same report without the four header lines that carry the scalars.\<close>

definition ex_mpa_bare :: mpa_file where
  "ex_mpa_bare = Mpa (drop 4 ex_mpa_lines) ex_mpa_frame"

text \<open>
  The same report with other header lines: one that has the label before the count,
  and one that has the label and no count of reads, only a version number.
\<close>

definition ex_mpa_label_first :: mpa_file where
  "ex_mpa_label_first =
     Mpa ([''#reads processed: 1000'' @ [NL],
           ''#estimated_reads_mapped_to_known_clades:700'' @ [NL]] @ drop 4 ex_mpa_lines)
         ex_mpa_frame"

definition ex_mpa_no_count :: mpa_file where
  "ex_mpa_no_count =
     Mpa ([''#reads processed by MetaPhlAn 4'' @ [NL],
           ''#estimated_reads_mapped_to_known_clades:700'' @ [NL]] @ drop 4 ex_mpa_lines)
         ex_mpa_frame"

text \<open>
  A sample: 100 primary reads, no metrics files, a paired first-classifier report with
  the unclassified and the root row, no unpaired report.
\<close>

definition ex_filter_dir :: filter_stats where
  "ex_filter_dir =
     \<lparr> flagstat = Lines [tsv_line [''100'', ''0'', ''primary'']],
       paired_aln = NoFile, paired_unaln = NoFile, unpaired_aln = NoFile,
       unpaired_unaln = NoFile, unaligned_metrics = None, excluded_metrics = None \<rparr>"

definition ex_two_rows :: report_file where
  "ex_two_rows = Report (Frame 8
     [report_row [''10.00'', ''10'', ''10'', ''0'', ''0'', ''U'', ''0'', ''unclassified''],
      report_row [''90.00'', ''90'', ''90'', ''0'', ''0'', ''R'', ''1'', ''root'']])"

definition ex_sample :: sample_inputs where
  "ex_sample =
     \<lparr> filter_dir = ex_filter_dir, paired_report = ex_two_rows, unpaired_report = Missing,
       metaphlan_report = ex_mpa \<rparr>"


text \<open>The same sample with a paired report of seven columns: the name column is cut.\<close>

definition ex_seven_columns :: report_file where
  "ex_seven_columns = Report (Frame 7
     [report_row [''10.00'', ''10'', ''10'', ''0'', ''0'', ''U'', ''0''],
      report_row [''90.00'', ''90'', ''90'', ''0'', ''0'', ''R'', ''1'']])"

definition ex_sample_malformed_kraken :: sample_inputs where
  "ex_sample_malformed_kraken = ex_sample \<lparr> paired_report := ex_seven_columns \<rparr>"

text \<open>The same sample with a second-classifier table of four columns.\<close>

definition ex_four_columns :: mpa_file where
  "ex_four_columns = Mpa ex_mpa_lines (Frame 4
     [report_row [''k__Bacteria'', ''2'', ''100.0'', ''''],
      report_row [''k__Bacteria|p__Firmicutes'', ''2|1239'', ''60.0'', '''']])"

definition ex_sample_malformed_mpa :: sample_inputs where
  "ex_sample_malformed_mpa = ex_sample \<lparr> metaphlan_report := ex_four_columns \<rparr>"

section \<open>Properties\<close>

subsection \<open>Flagstat extractor\<close>

lemma split_on_absent: "sep \<notin> set s \<Longrightarrow> split_on sep s = [s]"
  by (induction s) auto

lemma strip_chars_id:
  assumes "s \<noteq> []" and "\<not> p (hd s)" and "\<not> p (last s)"
  shows "strip_chars p s = s"
proof -
  from assms(1,2) have a: "dropWhile p s = s" by (cases s) simp_all
  from assms(1,3) have "dropWhile p (rev s) = rev s"
    by (cases "rev s") (simp_all add: hd_rev [symmetric])
  with a show ?thesis by (simp add: strip_chars_def)
qed

lemma digit_char_plain:
  assumes "is_digit_char c"
  shows "\<not> is_int_space c" and "c \<noteq> CHR ''-''" and "c \<noteq> CHR ''+''" and "c \<noteq> CHR ''_''"
  using assms by (auto simp: is_digit_char_def is_decimal_char_def is_int_space_def)

lemma py_int_isdigit:
  assumes "isdigit s"
  shows "py_int s =
           (if list_all is_decimal_char s \<and> length s \<le> 4300 then Some (int_of_digits s)
            else None)"
proof -
  from assms have ne: "s \<noteq> []" and all: "list_all is_digit_char s"
    by (simp_all add: isdigit_def)
  from ne all have h: "is_digit_char (hd s)" and l: "is_digit_char (last s)"
    by (simp_all add: list_all_iff)
  have st: "strip_chars is_int_space s = s"
    using ne digit_char_plain(1) [OF h] digit_char_plain(1) [OF l] by (rule strip_chars_id)
  have und: "CHR ''_'' \<notin> set s"
    using all digit_char_plain(4) by (auto simp: list_all_iff)
  then have sp: "split_on (CHR ''_'') s = [s]" by (rule split_on_absent)
  from und have fl: "filter (\<lambda>c. c \<noteq> CHR ''_'') s = s"
    by (simp add: filter_id_conv) blast
  from ne digit_char_plain(2,3) [OF h] st sp fl show ?thesis
    by (simp add: py_int_def Let_def int_max_str_digits_def)
qed

lemma int_of_digits_nonneg_aux:
  "0 \<le> a \<Longrightarrow> list_all is_decimal_char s \<Longrightarrow> 0 \<le> foldl (\<lambda>a c. 10 * a + digit_val c) a s"
proof (induction s arbitrary: a)
  case Nil
  then show ?case by simp
next
  case (Cons c s)
  from Cons.prems have "is_decimal_char c" by simp
  then have "0 \<le> digit_val c"
    by (auto simp: is_decimal_char_def digit_val_def)
  with Cons.prems have "0 \<le> 10 * a + digit_val c" by simp
  with Cons show ?case by simp
qed

lemma int_of_digits_nonneg: "list_all is_decimal_char s \<Longrightarrow> 0 \<le> int_of_digits s"
  unfolding int_of_digits_def by (rule int_of_digits_nonneg_aux) simp

lemma scan_primary_find:
  "scan_primary ls =
     (case find (\<lambda>l. primary_marked l \<and> isdigit (count_field l)) ls of
        None \<Rightarrow> None
      | Some l \<Rightarrow> py_int (count_field l))"
  by (induction ls) auto

text \<open>
  C6, as amended. \<open>parse_flagstat_primary\<close> looks for the first line that has at least
  three tab-separated fields, whose third field, trimmed, is \<open>primary\<close> and whose first
  field, trimmed, passes \<open>isdigit\<close>; a marked line whose count fails \<open>isdigit\<close> is passed
  over and does not end the scan. It returns the integer value of that first field,
  which is never negative, when \<open>int\<close> accepts the field (decimal digits only, at most
  4300 of them). It returns nothing when \<open>int\<close> rejects the field, when there is no such
  line, and when the file is absent or unreadable.
\<close>

theorem flagstat_first_usable_primary_line:
  "parse_flagstat_primary f =
     (case f of
        Lines ls \<Rightarrow>
          (case find (\<lambda>l. primary_marked l \<and> isdigit (count_field l)) ls of
             None \<Rightarrow> None
           | Some l \<Rightarrow>
               (if list_all is_decimal_char (count_field l) \<and> length (count_field l) \<le> 4300
                then Some (int_of_digits (count_field l))
                else None))
      | _ \<Rightarrow> None)
   \<and> (\<forall>v. parse_flagstat_primary f = Some v \<longrightarrow> 0 \<le> v)"
proof -
  have a: "parse_flagstat_primary f =
     (case f of
        Lines ls \<Rightarrow>
          (case find (\<lambda>l. primary_marked l \<and> isdigit (count_field l)) ls of
             None \<Rightarrow> None
           | Some l \<Rightarrow>
               (if list_all is_decimal_char (count_field l) \<and> length (count_field l) \<le> 4300
                then Some (int_of_digits (count_field l))
                else None))
      | _ \<Rightarrow> None)"
  proof (cases f)
    case (Lines ls)
    show ?thesis
    proof (cases "find (\<lambda>l. primary_marked l \<and> isdigit (count_field l)) ls")
      case None
      with Lines show ?thesis by (simp add: scan_primary_find)
    next
      case (Some l)
      then have "isdigit (count_field l)" by (auto simp: find_Some_iff)
      from py_int_isdigit [OF this] Some Lines show ?thesis
        by (simp add: scan_primary_find)
    qed
  qed simp_all
  have "0 \<le> v" if "parse_flagstat_primary f = Some v" for v
    using that unfolding a
    by (auto split: text_file.splits option.splits if_splits intro: int_of_digits_nonneg)
  with a show ?thesis by blast
qed

text \<open>
  C6, the amended statement at a flagstat file with the marked line second, and at a
  file whose first marked line has a count that \<open>isdigit\<close> passes and \<open>int\<close> rejects.
\<close>

theorem flagstat_first_usable_primary_line_witness:
  "parse_flagstat_primary ex_flagstat = Some 100
   \<and> (0::int) \<le> 100
   \<and> isdigit (count_field (hd ex_flagstat_superscript))
   \<and> \<not> list_all is_decimal_char (count_field (hd ex_flagstat_superscript))
   \<and> parse_flagstat_primary (Lines ex_flagstat_superscript) = None"
proof -
  have a: "parse_flagstat_primary ex_flagstat = Some 100" by code_simp
  have b: "isdigit (count_field (hd ex_flagstat_superscript))" by code_simp
  have c: "\<not> list_all is_decimal_char (count_field (hd ex_flagstat_superscript))" by code_simp
  have d: "find (\<lambda>l. primary_marked l \<and> isdigit (count_field l)) ex_flagstat_superscript
             = Some (hd ex_flagstat_superscript)"
    by code_simp
  from flagstat_first_usable_primary_line [of "Lines ex_flagstat_superscript"] c d
  have e: "parse_flagstat_primary (Lines ex_flagstat_superscript) = None" by simp
  from flagstat_first_usable_primary_line [of ex_flagstat] a
  have "(0::int) \<le> 100" by blast
  with a b c e show ?thesis by simp
qed

text \<open>
  C6 as stated fails: in \<open>ex_flagstat_two_marked\<close> the first line marked \<open>primary\<close> is the
  first line of the file and its count \<open>x\<close> is not a well-formed integer, so the claim
  has the extractor return nothing; it returns 5, the count of the second marked line.
\<close>

theorem flagstat_first_marked_line_counterexample:
  "find primary_marked ex_flagstat_two_marked = Some (tsv_line [''x'', ''0'', ''primary''])
   \<and> \<not> isdigit (count_field (tsv_line [''x'', ''0'', ''primary'']))
   \<and> parse_flagstat_primary (Lines ex_flagstat_two_marked) = Some 5"
  by code_simp

subsection \<open>Filtering summary\<close>

lemma FILTER_SUMMARY_ORDER_keys:
  "FILTER_SUMMARY_ORDER =
  [''PRIMARY_READS'',
   ''QCFILTER_PRIMARY_READS'',
   ''QCFILTER_READS_AFTER_PREALIGNED_HOST_FILTER'',
   ''QCFILTER_READS_AFTER_QUALITY_AND_COMPLEXITY_FILTER'',
   ''QCFILTER_READS_AFTER_HOST_FILTER'',
   ''QCFILTER_READS_AFTER_DEDUPLICATION'',
   ''QCFILTER_FINAL_PAIRED_READS'',
   ''QCFILTER_FINAL_UNPAIRED_READS'',
   ''QCFILTER_FINAL_TOTAL_READS'',
   ''UNALIGNED_PRIMARY_READS'',
   ''UNALIGNED_READS_AFTER_PREALIGNED_HOST_FILTER'',
   ''UNALIGNED_READS_AFTER_QUALITY_AND_COMPLEXITY_FILTER'',
   ''UNALIGNED_READS_AFTER_HOST_FILTER'',
   ''UNALIGNED_READS_AFTER_DEDUPLICATION'',
   ''UNALIGNED_FINAL_PAIRED_READS'',
   ''UNALIGNED_FINAL_UNPAIRED_READS'',
   ''UNALIGNED_FINAL_TOTAL_READS'',
   ''EXCLUDED_PRIMARY_READS'',
   ''EXCLUDED_READS_AFTER_PREALIGNED_HOST_FILTER'',
   ''EXCLUDED_READS_AFTER_QUALITY_AND_COMPLEXITY_FILTER'',
   ''EXCLUDED_READS_AFTER_HOST_FILTER'',
   ''EXCLUDED_READS_AFTER_DEDUPLICATION'',
   ''EXCLUDED_FINAL_PAIRED_READS'',
   ''EXCLUDED_FINAL_UNPAIRED_READS'',
   ''EXCLUDED_FINAL_TOTAL_READS'',
   ''T2T_UNALIGNED_TOTAL_READS'',
   ''T2T_UNALIGNED_PAIRED_PRIMARY'',
   ''T2T_UNALIGNED_UNPAIRED_PRIMARY'']"
  by (simp add: FILTER_SUMMARY_ORDER_def PATHSEQ_COLS_def prefixed_def)

lemma flagstat_entry_eq:
  "flagstat_entry (k, f) =
     (case parse_flagstat_primary f of None \<Rightarrow> [] | Some v \<Rightarrow> [(k, v)])"
  by (cases f) (simp_all add: flagstat_entry_def isfile_def split: option.splits)

lemma get_or_flagstat_entry:
  "get_or (flagstat_entry (k, f) @ rest) k' d =
     (if k' = k \<and> parse_flagstat_primary f \<noteq> None then fill_zero (parse_flagstat_primary f)
      else get_or rest k' d)"
  by (cases "parse_flagstat_primary f") (simp_all add: get_or_def flagstat_entry_eq fill_zero_def)

lemma get_or_Cons: "get_or ((k, v) # xs) k' d = (if k' = k then v else get_or xs k' d)"
  by (simp add: get_or_def)

lemma get_or_Nil: "get_or [] k d = d"
  by (simp add: get_or_def)

lemma collect_primary_reads_unfold:
  "collect_primary_reads fs =
     flagstat_entry (''PRIMARY_READS'', flagstat fs)
     @ flagstat_entry (''T2T_ALIGNED_PAIRED_PRIMARY'', paired_aln fs)
     @ flagstat_entry (''T2T_UNALIGNED_PAIRED_PRIMARY'', paired_unaln fs)
     @ flagstat_entry (''T2T_ALIGNED_UNPAIRED_PRIMARY'', unpaired_aln fs)
     @ flagstat_entry (''T2T_UNALIGNED_UNPAIRED_PRIMARY'', unpaired_unaln fs)
     @ [(''T2T_UNALIGNED_TOTAL_READS'',
         fill_zero (parse_flagstat_primary (paired_unaln fs))
         + fill_zero (parse_flagstat_primary (unpaired_unaln fs)))]"
  apply (simp only: collect_primary_reads_def flagstat_mapping_def Let_def list.map
      concat.simps append_Nil2)
  apply (simp add: get_or_flagstat_entry)
  apply (simp add: fill_zero_def get_or_def flagstat_entry_eq split: option.splits)
  done

lemma collect_pathseq_metrics_unfold:
  "collect_pathseq_metrics fs =
     map (\<lambda>c. (prefixed ''UNALIGNED'' c, get_or (metrics_series (unaligned_metrics fs)) c 0))
         PATHSEQ_COLS
     @ map (\<lambda>c. (prefixed ''EXCLUDED'' c, get_or (metrics_series (excluded_metrics fs)) c 0))
           PATHSEQ_COLS
     @ map (\<lambda>c. (prefixed ''QCFILTER'' c,
                  get_or (metrics_series (unaligned_metrics fs)) c 0
                  + get_or (metrics_series (excluded_metrics fs)) c 0)) PATHSEQ_COLS"
  by (simp add: collect_pathseq_metrics_def kind_counters_def Let_def)

lemma pathseq_keys:
  "map fst (collect_pathseq_metrics fs) =
     map (prefixed ''UNALIGNED'') PATHSEQ_COLS @ map (prefixed ''EXCLUDED'') PATHSEQ_COLS
     @ map (prefixed ''QCFILTER'') PATHSEQ_COLS"
  by (simp add: collect_pathseq_metrics_unfold comp_def)

lemma primary_keys:
  "map fst (collect_primary_reads fs) =
     filter (\<lambda>k. map_of (collect_primary_reads fs) k \<noteq> None)
       [''PRIMARY_READS'', ''T2T_ALIGNED_PAIRED_PRIMARY'', ''T2T_UNALIGNED_PAIRED_PRIMARY'',
        ''T2T_ALIGNED_UNPAIRED_PRIMARY'', ''T2T_UNALIGNED_UNPAIRED_PRIMARY'',
        ''T2T_UNALIGNED_TOTAL_READS'']"
  unfolding collect_primary_reads_unfold
  by (simp add: flagstat_entry_eq split: option.splits)

text \<open>
  \<open>reindex\<close> raises on an index with duplicate labels; the merged series has none, so
  \<open>filtering_summary\<close> always returns its row.
\<close>

lemma merged_labels_distinct:
  "distinct (map fst (collect_primary_reads fs @ collect_pathseq_metrics fs))"
proof -
  have a: "distinct (map fst (collect_primary_reads fs))"
    by (subst primary_keys) (rule distinct_filter, simp)
  have b: "distinct (map fst (collect_pathseq_metrics fs))"
    by (simp add: pathseq_keys PATHSEQ_COLS_def prefixed_def)
  have "set (map fst (collect_primary_reads fs))
          \<subseteq> set [''PRIMARY_READS'', ''T2T_ALIGNED_PAIRED_PRIMARY'', ''T2T_UNALIGNED_PAIRED_PRIMARY'',
        ''T2T_ALIGNED_UNPAIRED_PRIMARY'', ''T2T_UNALIGNED_UNPAIRED_PRIMARY'',
        ''T2T_UNALIGNED_TOTAL_READS'']"
    by (subst primary_keys) (rule filter_is_subset)
  moreover have "set [''PRIMARY_READS'', ''T2T_ALIGNED_PAIRED_PRIMARY'', ''T2T_UNALIGNED_PAIRED_PRIMARY'',
        ''T2T_ALIGNED_UNPAIRED_PRIMARY'', ''T2T_UNALIGNED_UNPAIRED_PRIMARY'',
        ''T2T_UNALIGNED_TOTAL_READS''] \<inter> set (map fst (collect_pathseq_metrics fs)) = {}"
    by (simp add: pathseq_keys PATHSEQ_COLS_def prefixed_def)
  ultimately have c: "set (map fst (collect_primary_reads fs))
      \<inter> set (map fst (collect_pathseq_metrics fs)) = {}"
    by blast
  from a b c show ?thesis by simp
qed

text \<open>
  C4, as amended. The filtering summary row has a fixed key order for every input: the
  primary-read count, the eight counters of QCFILTER (the sums of the two stages), of
  UNALIGNED and of EXCLUDED, then three T2T counters: the unaligned total, the unaligned
  paired count and the unaligned unpaired count. Every key is present, and a count that
  was not extracted is 0. The two aligned T2T counts are extracted but are not keys of
  the row.
\<close>

theorem filtering_summary_row:
  "filtering_summary fs =
     (''PRIMARY_READS'', fill_zero (parse_flagstat_primary (flagstat fs)))
     # map (\<lambda>c. (prefixed ''QCFILTER'' c,
                  get_or (metrics_series (unaligned_metrics fs)) c 0
                  + get_or (metrics_series (excluded_metrics fs)) c 0)) PATHSEQ_COLS
     @ map (\<lambda>c. (prefixed ''UNALIGNED'' c, get_or (metrics_series (unaligned_metrics fs)) c 0))
           PATHSEQ_COLS
     @ map (\<lambda>c. (prefixed ''EXCLUDED'' c, get_or (metrics_series (excluded_metrics fs)) c 0))
           PATHSEQ_COLS
     @ [(''T2T_UNALIGNED_TOTAL_READS'',
         fill_zero (parse_flagstat_primary (paired_unaln fs))
         + fill_zero (parse_flagstat_primary (unpaired_unaln fs))),
        (''T2T_UNALIGNED_PAIRED_PRIMARY'', fill_zero (parse_flagstat_primary (paired_unaln fs))),
        (''T2T_UNALIGNED_UNPAIRED_PRIMARY'',
         fill_zero (parse_flagstat_primary (unpaired_unaln fs)))]"
  unfolding filtering_summary_def reindex_fill_def FILTER_SUMMARY_ORDER_keys
    collect_primary_reads_unfold collect_pathseq_metrics_unfold
  apply (simp only: append_assoc)
  apply (simp add: get_or_flagstat_entry get_or_Cons get_or_Nil PATHSEQ_COLS_def prefixed_def
      fill_zero_def)
  done

text \<open>C4, the amended statement at \<open>ex_filter_stats\<close>: the 28 entries of the row.\<close>

theorem filtering_summary_row_witness:
  "filtering_summary ex_filter_stats =
     [(''PRIMARY_READS'', 100),
      (''QCFILTER_PRIMARY_READS'', 50),
      (''QCFILTER_READS_AFTER_PREALIGNED_HOST_FILTER'', 0),
      (''QCFILTER_READS_AFTER_QUALITY_AND_COMPLEXITY_FILTER'', 0),
      (''QCFILTER_READS_AFTER_HOST_FILTER'', 0),
      (''QCFILTER_READS_AFTER_DEDUPLICATION'', 0),
      (''QCFILTER_FINAL_PAIRED_READS'', 0),
      (''QCFILTER_FINAL_UNPAIRED_READS'', 0),
      (''QCFILTER_FINAL_TOTAL_READS'', 40),
      (''UNALIGNED_PRIMARY_READS'', 50),
      (''UNALIGNED_READS_AFTER_PREALIGNED_HOST_FILTER'', 0),
      (''UNALIGNED_READS_AFTER_QUALITY_AND_COMPLEXITY_FILTER'', 0),
      (''UNALIGNED_READS_AFTER_HOST_FILTER'', 0),
      (''UNALIGNED_READS_AFTER_DEDUPLICATION'', 0),
      (''UNALIGNED_FINAL_PAIRED_READS'', 0),
      (''UNALIGNED_FINAL_UNPAIRED_READS'', 0),
      (''UNALIGNED_FINAL_TOTAL_READS'', 40),
      (''EXCLUDED_PRIMARY_READS'', 0),
      (''EXCLUDED_READS_AFTER_PREALIGNED_HOST_FILTER'', 0),
      (''EXCLUDED_READS_AFTER_QUALITY_AND_COMPLEXITY_FILTER'', 0),
      (''EXCLUDED_READS_AFTER_HOST_FILTER'', 0),
      (''EXCLUDED_READS_AFTER_DEDUPLICATION'', 0),
      (''EXCLUDED_FINAL_PAIRED_READS'', 0),
      (''EXCLUDED_FINAL_UNPAIRED_READS'', 0),
      (''EXCLUDED_FINAL_TOTAL_READS'', 0),
      (''T2T_UNALIGNED_TOTAL_READS'', 30),
      (''T2T_UNALIGNED_PAIRED_PRIMARY'', 30),
      (''T2T_UNALIGNED_UNPAIRED_PRIMARY'', 0)]"
  using filtering_summary_row [of ex_filter_stats]
  by code_simp

text \<open>
  C4 as stated fails: the claim ends the row with the four paired/unpaired,
  aligned/unaligned T2T counters. At \<open>ex_filter_stats\<close> the aligned paired count 7 and the
  aligned unpaired count 3 are extracted by \<open>collect_primary_reads\<close>, and neither key is
  in the row, whose last three keys are the unaligned total and the two unaligned counts.
\<close>

theorem filtering_summary_four_t2t_counterexample:
  "(''T2T_ALIGNED_PAIRED_PRIMARY'', 7) \<in> set (collect_primary_reads ex_filter_stats)
   \<and> (''T2T_ALIGNED_UNPAIRED_PRIMARY'', 3) \<in> set (collect_primary_reads ex_filter_stats)
   \<and> ''T2T_ALIGNED_PAIRED_PRIMARY'' \<notin> set (map fst (filtering_summary ex_filter_stats))
   \<and> ''T2T_ALIGNED_UNPAIRED_PRIMARY'' \<notin> set (map fst (filtering_summary ex_filter_stats))
   \<and> drop 25 (map fst (filtering_summary ex_filter_stats)) =
       [''T2T_UNALIGNED_TOTAL_READS'', ''T2T_UNALIGNED_PAIRED_PRIMARY'',
        ''T2T_UNALIGNED_UNPAIRED_PRIMARY'']"
  by code_simp

subsection \<open>First-classifier merge\<close>

lemma row_key_double [simp]: "row_key (double_reads r) = row_key r"
  by (simp add: row_key_def double_reads_def split: option.splits)

lemma reads_clade_double [simp]: "reads_clade (double_reads r) = 2 * reads_clade r"
  by (simp add: double_reads_def)

lemma reads_taxon_double [simp]: "reads_taxon (double_reads r) = 2 * reads_taxon r"
  by (simp add: double_reads_def)

lemma group_sum_append: "group_sum c (A @ B) k = group_sum c A k + group_sum c B k"
  by (simp add: group_sum_def)

lemma group_sum_double_clade:
  "group_sum reads_clade (map double_reads A) k = 2 * group_sum reads_clade A k"
  by (induction A) (simp_all add: group_sum_def)

lemma group_sum_double_taxon:
  "group_sum reads_taxon (map double_reads A) k = 2 * group_sum reads_taxon A k"
  by (induction A) (simp_all add: group_sum_def)

lemma the_image_present: "the ` {v \<in> S. v \<noteq> None} = {k. Some k \<in> S}"
proof (intro set_eqI iffI)
  fix k assume "k \<in> the ` {v \<in> S. v \<noteq> None}"
  then obtain v where v: "v \<in> S" "v \<noteq> None" "k = the v" by blast
  from v(2,3) have "v = Some k" by (cases v) simp_all
  with v(1) have "Some k \<in> S" by (simp only:)
  then show "k \<in> {k. Some k \<in> S}" by (rule CollectI)
next
  fix k assume "k \<in> {k. Some k \<in> S}"
  then have "Some k \<in> {v \<in> S. v \<noteq> None}" by blast
  then have "the (Some k) \<in> the ` {v \<in> S. v \<noteq> None}" by (rule imageI)
  then show "k \<in> the ` {v \<in> S. v \<noteq> None}" by (simp only: option.sel)
qed

lemma set_group_keys: "set (group_keys rows) = {k. Some k \<in> row_key ` set rows}"
  using the_image_present [of "row_key ` set rows"] by (simp add: group_keys_def)

lemma distinct_group_keys: "distinct (group_keys rows)"
  by (simp add: group_keys_def)

lemma sorted_group_keys: "sorted (group_keys rows)"
  by (simp add: group_keys_def)

lemma group_keys_cong:
  assumes "row_key ` set A = row_key ` set B"
  shows "group_keys A = group_keys B"
proof (rule sorted_distinct_set_unique)
  show "set (group_keys A) = set (group_keys B)"
    using assms by (simp add: set_group_keys)
qed (simp_all add: distinct_group_keys sorted_group_keys)

lemma merged_table_cong:
  assumes "group_keys A = group_keys B"
    and "\<And>k. group_sum reads_clade A k = group_sum reads_clade B k"
    and "\<And>k. group_sum reads_taxon A k = group_sum reads_taxon B k"
  shows "merged_table A = merged_table B"
proof -
  have "groupby_sum A = groupby_sum B"
    using assms by (simp add: groupby_sum_def)
  then show ?thesis by (simp add: merged_table_def)
qed

lemma map_out_key_merged: "map out_key (merged_table rows) = group_keys rows"
  by (simp add: merged_table_def groupby_sum_def out_key_def with_pct_def Let_def comp_def)

lemma merged_row_clade:
  "ro \<in> set (merged_table rows) \<Longrightarrow>
     out_reads_clade ro = group_sum reads_clade rows (out_key ro)
   \<and> out_reads_taxon ro = group_sum reads_taxon rows (out_key ro)"
proof -
  assume "ro \<in> set (merged_table rows)"
  then obtain k where "k \<in> set (group_keys rows)"
    and "ro = with_pct (denominator (groupby_sum rows))
          \<lparr> g_name = fst k, g_tax_id = fst (snd k), g_rank = snd (snd k),
            g_reads_clade = group_sum reads_clade rows k,
            g_reads_taxon = group_sum reads_taxon rows k \<rparr>"
    unfolding merged_table_def groupby_sum_def Let_def by auto
  then show ?thesis by (simp add: with_pct_def out_key_def)
qed

lemma load_doubled_input_rows:
  "load_doubled num f = (case input_rows num f of Inl e \<Rightarrow> Inl e | Inr df \<Rightarrow> Inr (map double_reads df))"
  by (simp add: load_doubled_def input_rows_def)


lemma merge_kraken_reports_eq:
  assumes "present paired \<or> present unpaired"
    and "input_rows num paired = Inr dfp"
    and "input_rows num unpaired = Inr dfu"
  shows "merge_kraken_reports num paired unpaired = Inr (merged_table (map double_reads (dfp @ dfu)))"
  using assms by (auto simp: merge_kraken_reports_def load_doubled_input_rows)

lemma merge_kraken_reports_Inr:
  assumes "merge_kraken_reports num paired unpaired = Inr out"
  obtains dfp dfu where "present paired \<or> present unpaired"
    and "input_rows num paired = Inr dfp" and "input_rows num unpaired = Inr dfu"
    and "out = merged_table (map double_reads (dfp @ dfu))"
  using assms
  by (auto simp: merge_kraken_reports_def load_doubled_input_rows split: if_splits sum.splits)

text \<open>
  Inside the signed 64-bit range the doubling of an \<open>int64\<close> column is the exact product.
\<close>

lemma double_int64_exact:
  assumes "- (2 ^ 62) \<le> v" and "v < 2 ^ 62"
  shows "double_int64 v = 2 * v"
proof -
  from assms have "0 \<le> 2 * v + 2 ^ 63" and "2 * v + 2 ^ 63 < (2 ^ 64 :: int)" by simp_all
  then have "(2 * v + 2 ^ 63) mod 2 ^ 64 = 2 * v + 2 ^ 63" by (rule mod_pos_pos_trivial)
  then show ?thesis by (simp add: double_int64_def int64_wrap_def)
qed

lemma whole_Ints: "whole_number q \<longleftrightarrow> q \<in> \<int>"
proof
  assume "whole_number q"
  then have "of_int \<lfloor>q\<rfloor> = q" by (simp only: whole_number_def)
  then show "q \<in> \<int>" by (metis Ints_of_int)
next
  assume "q \<in> \<int>"
  then obtain n where "q = of_int n" by (rule Ints_cases)
  then have "of_int \<lfloor>q\<rfloor> = q" by simp
  then show "whole_number q" by (simp only: whole_number_def)
qed

lemma group_sum_whole:
  assumes "list_all (\<lambda>r. whole_number (c r)) rows"
  shows "whole_number (group_sum c rows k)"
  using assms unfolding group_sum_def whole_Ints
  by (induction rows) simp_all

lemma group_sum_abs:
  "\<bar>group_sum c rows k\<bar> \<le> sum_list (map (\<lambda>r. \<bar>c r\<bar>) rows)"
  unfolding group_sum_def
proof (induction rows)
  case Nil
  then show ?case by simp
next
  case (Cons r rows)
  have "0 \<le> \<bar>c r\<bar>" by simp
  with Cons show ?case by (simp add: abs_if split: if_splits)
qed

lemma doubled_total_exact:
  assumes "list_all (\<lambda>r. whole_number (c r)) rows"
    and "2 * sum_list (map (\<lambda>r. \<bar>c r\<bar>) rows) < 2 ^ 53"
  shows "whole_number (2 * group_sum c rows k) \<and> \<bar>2 * group_sum c rows k\<bar> < 2 ^ 53"
proof -
  have "whole_number (group_sum c rows k)" using assms(1) by (rule group_sum_whole)
  then have a: "whole_number (2 * group_sum c rows k)"
    unfolding whole_Ints by (simp add: Ints_mult)
  have "\<bar>2 * group_sum c rows k\<bar> = 2 * \<bar>group_sum c rows k\<bar>" by (simp add: abs_mult)
  also have "\<dots> \<le> 2 * sum_list (map (\<lambda>r. \<bar>c r\<bar>) rows)"
    using group_sum_abs [of c rows k] by simp
  finally have "\<bar>2 * group_sum c rows k\<bar> < 2 ^ 53" using assms(2) by simp
  with a show ?thesis by simp
qed

text \<open>
  C1, as amended. When at least one report is present, the present ones load, and the
  counts of their rows are whole numbers whose doubled absolute sums stay below \<open>2^53\<close>,
  with taxonomic ids below \<open>2^53\<close> in magnitude (so that the arithmetic of the merge is
  exact), \<open>merge_kraken_reports\<close> returns a table
  with exactly one row per distinct (name, tax\_id, rank) triple among the input rows
  that have both a name and a rank; that row's \<open>reads_clade\<close> is twice the sum of
  \<open>reads_clade\<close> over the input rows of both files with that triple, and likewise
  \<open>reads_taxon\<close>; both are again whole numbers below \<open>2^53\<close> in magnitude. Input rows
  whose name or rank cell is missing are counted in no row.
\<close>

theorem merge_kraken_reports_groups:
  assumes "present paired \<or> present unpaired"
    and "input_rows num paired = Inr dfp"
    and "input_rows num unpaired = Inr dfu"
    and "exact_counts (dfp @ dfu)"
  shows "\<exists>out. merge_kraken_reports num paired unpaired = Inr out
           \<and> distinct (map out_key out)
           \<and> set (map out_key out) = {k. Some k \<in> row_key ` set (dfp @ dfu)}
           \<and> (\<forall>ro \<in> set out.
                 out_reads_clade ro = 2 * group_sum reads_clade (dfp @ dfu) (out_key ro)
               \<and> out_reads_taxon ro = 2 * group_sum reads_taxon (dfp @ dfu) (out_key ro)
               \<and> whole_number (out_reads_clade ro) \<and> \<bar>out_reads_clade ro\<bar> < 2 ^ 53
               \<and> whole_number (out_reads_taxon ro) \<and> \<bar>out_reads_taxon ro\<bar> < 2 ^ 53)"
proof -
  let ?rows = "map double_reads (dfp @ dfu)"
  have m: "merge_kraken_reports num paired unpaired = Inr (merged_table ?rows)"
    using assms(1-3) by (rule merge_kraken_reports_eq)
  have img: "row_key ` set ?rows = row_key ` set (dfp @ dfu)"
    by (simp only: set_map image_image row_key_double)
  have d: "distinct (map out_key (merged_table ?rows))"
    by (simp only: map_out_key_merged distinct_group_keys)
  have s: "set (map out_key (merged_table ?rows)) = {k. Some k \<in> row_key ` set (dfp @ dfu)}"
    by (simp only: map_out_key_merged set_group_keys img)
  from assms(4) have wc: "list_all (\<lambda>r. whole_number (reads_clade r)) (dfp @ dfu)"
    and wt: "list_all (\<lambda>r. whole_number (reads_taxon r)) (dfp @ dfu)"
    and bc: "2 * sum_list (map (\<lambda>r. \<bar>reads_clade r\<bar>) (dfp @ dfu)) < 2 ^ 53"
    and bt: "2 * sum_list (map (\<lambda>r. \<bar>reads_taxon r\<bar>) (dfp @ dfu)) < 2 ^ 53"
    unfolding exact_counts_def by (simp_all add: list_all_iff)
  have c: "out_reads_clade ro = 2 * group_sum reads_clade (dfp @ dfu) (out_key ro)
           \<and> out_reads_taxon ro = 2 * group_sum reads_taxon (dfp @ dfu) (out_key ro)
           \<and> whole_number (out_reads_clade ro) \<and> \<bar>out_reads_clade ro\<bar> < 2 ^ 53
           \<and> whole_number (out_reads_taxon ro) \<and> \<bar>out_reads_taxon ro\<bar> < 2 ^ 53"
    if "ro \<in> set (merged_table ?rows)" for ro
  proof -
    from merged_row_clade [OF that]
    have e1: "out_reads_clade ro = 2 * group_sum reads_clade (dfp @ dfu) (out_key ro)"
      and e2: "out_reads_taxon ro = 2 * group_sum reads_taxon (dfp @ dfu) (out_key ro)"
      by (simp_all only: group_sum_double_clade group_sum_double_taxon)
    from doubled_total_exact [OF wc bc, of "out_key ro"]
      doubled_total_exact [OF wt bt, of "out_key ro"] e1 e2
    show ?thesis by simp
  qed
  from m d s c show ?thesis by blast
qed

lemma ex_merge_value: "merge_kraken_reports dec_numeric ex_paired ex_unpaired = Inr ex_merged"
  by code_simp

text \<open>
  C1, the amended statement at \<open>ex_paired\<close> and \<open>ex_unpaired\<close>: both load, three and two
  rows with whole counts, and the merged table has the stated keys and sums.
\<close>

theorem merge_kraken_reports_groups_witness:
  "present ex_paired
   \<and> (\<exists>dfp dfu out.
         input_rows dec_numeric ex_paired = Inr dfp
       \<and> input_rows dec_numeric ex_unpaired = Inr dfu
       \<and> length dfp = 3 \<and> length dfu = 2
       \<and> exact_counts (dfp @ dfu)
       \<and> merge_kraken_reports dec_numeric ex_paired ex_unpaired = Inr out
       \<and> distinct (map out_key out)
       \<and> set (map out_key out) = {k. Some k \<in> row_key ` set (dfp @ dfu)}
       \<and> (\<forall>ro \<in> set out.
             out_reads_clade ro = 2 * group_sum reads_clade (dfp @ dfu) (out_key ro)
           \<and> out_reads_taxon ro = 2 * group_sum reads_taxon (dfp @ dfu) (out_key ro)
           \<and> whole_number (out_reads_clade ro) \<and> \<bar>out_reads_clade ro\<bar> < 2 ^ 53
           \<and> whole_number (out_reads_taxon ro) \<and> \<bar>out_reads_taxon ro\<bar> < 2 ^ 53))"
proof -
  let ?p = "projr (input_rows dec_numeric ex_paired)"
  let ?u = "projr (input_rows dec_numeric ex_unpaired)"
  have p: "present ex_paired" by (simp add: present_def ex_paired_def)
  have a: "input_rows dec_numeric ex_paired = Inr ?p"
    by (simp add: input_rows_def present_def ex_paired_def)
  have b: "input_rows dec_numeric ex_unpaired = Inr ?u"
    by (simp add: input_rows_def present_def ex_unpaired_def)
  have la: "length ?p = 3" by (simp add: input_rows_def present_def ex_paired_def)
  have lb: "length ?u = 2" by (simp add: input_rows_def present_def ex_unpaired_def)
  have e: "exact_counts (?p @ ?u)" by code_simp
  from p have "present ex_paired \<or> present ex_unpaired" by simp
  from merge_kraken_reports_groups [OF this a b e] p a b la lb e show ?thesis by blast
qed

text \<open>
  C1 as stated fails. \<open>ex_paired_no_rank\<close> holds one row, with the triple (Bacteria, 2,
  missing rank) and \<open>reads_clade\<close> 10: the claim gives it one output row with
  \<open>reads_clade\<close> 20, and the merged table is empty, because the grouping drops rows whose
  key has a missing part. And outside the exact range the doubled count is not twice
  the count: on an \<open>int64\<close> column the doubling of \<open>2^63 - 1\<close> is \<open>-2\<close>.
\<close>

theorem merge_drops_row_without_rank_counterexample:
  "input_rows dec_numeric ex_paired_no_rank =
     Inr [\<lparr> pct_reads = 50, reads_clade = 10, reads_taxon = 10, minimizers_count = 0,
            minimizers_distinct = 0, rank = None, tax_id = 2, name = Some ''Bacteria'' \<rparr>]
   \<and> merge_kraken_reports dec_numeric ex_paired_no_rank Missing = Inr []
   \<and> double_int64 (2 ^ 63 - 1) = - 2"
  by code_simp

lemma denominator_merged:
  "clade_sum is_root_id (merged_table rows) = denominator (groupby_sum rows)"
  by (simp add: clade_sum_def merged_table_def denominator_def Let_def with_pct_def
      filter_map comp_def)

lemma merged_row_pct:
  assumes "ro \<in> set (merged_table rows)"
  shows "out_pct_reads ro =
           (if clade_sum is_root_id (merged_table rows) > 0
            then round4 (100 * out_reads_clade ro / clade_sum is_root_id (merged_table rows))
            else 0)"
proof -
  from assms obtain g where "g \<in> set (groupby_sum rows)"
    and "ro = with_pct (denominator (groupby_sum rows)) g"
    unfolding merged_table_def Let_def by auto
  then show ?thesis by (simp add: denominator_merged with_pct_def)
qed

subsection \<open>Percentages of the merged table\<close>

lemma rint_upper: "of_int (rint q) \<le> q + 1 / 2"
proof -
  have "of_int \<lfloor>q\<rfloor> \<le> q" by simp
  moreover have "q < of_int \<lfloor>q\<rfloor> + 1" by linarith
  ultimately show ?thesis
    by (simp add: rint_def Let_def) linarith
qed

lemma rint_lower: "q - 1 / 2 \<le> of_int (rint q)"
proof -
  have "of_int \<lfloor>q\<rfloor> \<le> q" by simp
  moreover have "q < of_int \<lfloor>q\<rfloor> + 1" by linarith
  ultimately show ?thesis
    by (simp add: rint_def Let_def)
qed

lemma rint_ge_int: "of_int n \<le> q \<Longrightarrow> n \<le> rint q"
proof -
  assume "of_int n \<le> q"
  then have "n \<le> \<lfloor>q\<rfloor>" by (simp add: le_floor_iff)
  then show ?thesis by (simp add: rint_def Let_def)
qed

lemma rint_le_int: "q \<le> of_int n \<Longrightarrow> rint q \<le> n"
proof -
  assume h: "q \<le> of_int n"
  have fl: "\<lfloor>q\<rfloor> \<le> n" using h by (simp add: floor_le_iff)
  show ?thesis
  proof (cases "q - of_int \<lfloor>q\<rfloor> < 1 / 2")
    case True
    then show ?thesis using fl by (simp add: rint_def Let_def)
  next
    case False
    then have "of_int \<lfloor>q\<rfloor> < q" by linarith
    with h have "of_int \<lfloor>q\<rfloor> < (of_int n :: rat)" by linarith
    then have "\<lfloor>q\<rfloor> < n" by simp
    then show ?thesis by (simp add: rint_def Let_def)
  qed
qed

lemma round4_upper: "round4 q \<le> q + 1 / 20000"
  using rint_upper [of "q * 10000"] by (simp add: round4_def field_simps)

lemma round4_range:
  assumes "0 \<le> q" and "q \<le> 100"
  shows "0 \<le> round4 q \<and> round4 q \<le> 100"
proof -
  have "of_int 0 \<le> q * 10000" using assms by simp
  then have a: "0 \<le> rint (q * 10000)" by (rule rint_ge_int)
  have "q * 10000 \<le> of_int 1000000" using assms by simp
  then have b: "rint (q * 10000) \<le> 1000000" by (rule rint_le_int)
  from a have "0 \<le> (of_int (rint (q * 10000)) :: rat)" by simp
  moreover from b have "(of_int (rint (q * 10000)) :: rat) \<le> of_int 1000000"
    by (simp only: of_int_le_iff)
  ultimately show ?thesis by (simp add: round4_def)
qed


lemma pct_sum_bound:
  assumes "0 < d"
    and "\<forall>ro \<in> set xs. out_pct_reads ro = round4 (100 * out_reads_clade ro / d)"
  shows "sum_list (map out_pct_reads xs)
           \<le> 100 * sum_list (map out_reads_clade xs) / d + of_nat (length xs) / 20000"
  using assms(2)
proof (induction xs)
  case Nil
  then show ?case by simp
next
  case (Cons x xs)
  have h1: "out_pct_reads x \<le> 100 * out_reads_clade x / d + 1 / 20000"
    using Cons.prems round4_upper [of "100 * out_reads_clade x / d"] by simp
  have h2: "sum_list (map out_pct_reads xs)
           \<le> 100 * sum_list (map out_reads_clade xs) / d + of_nat (length xs) / 20000"
    using Cons by simp
  have h3: "100 * sum_list (map out_reads_clade (x # xs)) / d
      = 100 * out_reads_clade x / d + 100 * sum_list (map out_reads_clade xs) / d"
    by (simp add: add_divide_distrib distrib_left)
  have h4: "(of_nat (length (x # xs)) :: rat) / 20000 = of_nat (length xs) / 20000 + 1 / 20000"
    by (simp add: add_divide_distrib)
  have "sum_list (map out_pct_reads (x # xs)) = out_pct_reads x + sum_list (map out_pct_reads xs)"
    by simp
  also have "\<dots> \<le> (100 * out_reads_clade x / d + 100 * sum_list (map out_reads_clade xs) / d)
                  + (of_nat (length xs) / 20000 + 1 / 20000)"
    using h1 h2 by linarith
  also have "\<dots> = 100 * sum_list (map out_reads_clade (x # xs)) / d
                  + of_nat (length (x # xs)) / 20000"
    by (simp only: h3 h4)
  finally show ?case .
qed

text \<open>
  C7, as amended. In a merged table with a positive denominator, the rows with \<open>tax_id\<close>
  0 or 1 have \<open>reads_clade\<close> summing exactly to the denominator the merge computed;
  every row whose \<open>reads_clade\<close> lies between 0 and the denominator has \<open>pct_reads\<close>
  between 0 and 100; and the \<open>pct_reads\<close> of the other rows sum to at most 100, plus
  0.00005 of rounding per row, when the \<open>reads_clade\<close> of those rows sum to at most the
  denominator. Without that condition the sum is not bounded by 100.
\<close>

theorem merged_percentages:
  assumes "merge_kraken_reports num paired unpaired = Inr out"
    and "input_rows num paired = Inr dfp"
    and "input_rows num unpaired = Inr dfu"
    and "0 < clade_sum is_root_id out"
  shows "clade_sum is_root_id out = denominator (groupby_sum (map double_reads (dfp @ dfu)))
       \<and> (\<forall>ro \<in> set out.
             0 \<le> out_reads_clade ro \<and> out_reads_clade ro \<le> clade_sum is_root_id out \<longrightarrow>
             0 \<le> out_pct_reads ro \<and> out_pct_reads ro \<le> 100)
       \<and> (sum_list (map out_reads_clade (non_root_rows out)) \<le> clade_sum is_root_id out \<longrightarrow>
             sum_list (map out_pct_reads (non_root_rows out))
               \<le> 100 + of_nat (length (non_root_rows out)) / 20000)"
proof -
  let ?d = "clade_sum is_root_id out"
  from assms(1) obtain dfp' dfu' where
    "input_rows num paired = Inr dfp'" "input_rows num unpaired = Inr dfu'"
    and o: "out = merged_table (map double_reads (dfp' @ dfu'))"
    by (rule merge_kraken_reports_Inr)
  with assms(2,3) have out: "out = merged_table (map double_reads (dfp @ dfu))" by simp
  have pct: "\<forall>ro \<in> set out. out_pct_reads ro = round4 (100 * out_reads_clade ro / ?d)"
    using merge_kraken_reports_Inr merged_row_pct out assms(4) by simp
  have a: "?d = denominator (groupby_sum (map double_reads (dfp @ dfu)))"
    unfolding out by (rule denominator_merged)
  have b: "0 \<le> out_pct_reads ro \<and> out_pct_reads ro \<le> 100"
    if "ro \<in> set out" "0 \<le> out_reads_clade ro" "out_reads_clade ro \<le> ?d" for ro
  proof -
    have "0 \<le> 100 * out_reads_clade ro / ?d" using that(2) assms(4) by simp
    moreover have "100 * out_reads_clade ro / ?d \<le> 100"
      using that(3) assms(4) by (simp add: field_simps)
    ultimately show ?thesis using round4_range pct that(1) by simp
  qed
  have c: "sum_list (map out_pct_reads (non_root_rows out))
               \<le> 100 + of_nat (length (non_root_rows out)) / 20000"
    if h: "sum_list (map out_reads_clade (non_root_rows out)) \<le> ?d"
  proof -
    have "\<forall>ro \<in> set (non_root_rows out).
            out_pct_reads ro = round4 (100 * out_reads_clade ro / ?d)"
      using pct by (simp add: non_root_rows_def)
    with assms(4) have "sum_list (map out_pct_reads (non_root_rows out))
        \<le> 100 * sum_list (map out_reads_clade (non_root_rows out)) / ?d
          + of_nat (length (non_root_rows out)) / 20000"
      by (rule pct_sum_bound)
    moreover have "100 * sum_list (map out_reads_clade (non_root_rows out)) / ?d \<le> 100"
      using h assms(4) by (simp add: field_simps)
    ultimately show ?thesis by linarith
  qed
  from a b c show ?thesis by blast
qed

text \<open>C7, the amended statement at \<open>ex_paired\<close> and \<open>ex_unpaired\<close>.\<close>

theorem merged_percentages_witness:
  "merge_kraken_reports dec_numeric ex_paired ex_unpaired = Inr ex_merged
   \<and> 0 < clade_sum is_root_id ex_merged
   \<and> sum_list (map out_reads_clade (non_root_rows ex_merged)) \<le> clade_sum is_root_id ex_merged
   \<and> sum_list (map out_pct_reads (non_root_rows ex_merged))
        \<le> 100 + of_nat (length (non_root_rows ex_merged)) / 20000
   \<and> list_all (\<lambda>ro. 0 \<le> out_pct_reads ro \<and> out_pct_reads ro \<le> 100) ex_merged"
proof -
  have v: "merge_kraken_reports dec_numeric ex_paired ex_unpaired = Inr ex_merged"
    by (rule ex_merge_value)
  have a: "input_rows dec_numeric ex_paired = Inr (projr (input_rows dec_numeric ex_paired))"
    by (simp add: input_rows_def present_def ex_paired_def)
  have b: "input_rows dec_numeric ex_unpaired = Inr (projr (input_rows dec_numeric ex_unpaired))"
    by (simp add: input_rows_def present_def ex_unpaired_def)
  have d: "0 < clade_sum is_root_id ex_merged" by code_simp
  have s: "sum_list (map out_reads_clade (non_root_rows ex_merged)) \<le> clade_sum is_root_id ex_merged"
    by code_simp
  have r: "list_all (\<lambda>ro. 0 \<le> out_reads_clade ro \<and> out_reads_clade ro \<le> clade_sum is_root_id ex_merged) ex_merged"
    by code_simp
  note t = merged_percentages [OF v a b d]
  from t s have "sum_list (map out_pct_reads (non_root_rows ex_merged))
        \<le> 100 + of_nat (length (non_root_rows ex_merged)) / 20000" by blast
  moreover from t r have "list_all (\<lambda>ro. 0 \<le> out_pct_reads ro \<and> out_pct_reads ro \<le> 100) ex_merged"
    by (simp add: list_all_iff)
  ultimately show ?thesis using v d s by simp
qed

text \<open>
  C7 as stated fails: a clade count includes the counts of the clades below it. In
  \<open>ex_nested\<close> the root, Bacteria and the phylum below it each hold the same 10 reads;
  the denominator is 20 and the two rows that are not root rows have \<open>pct_reads\<close> 100
  each, 200 in sum.
\<close>

theorem nested_clades_pct_sum_counterexample:
  "merge_kraken_reports dec_numeric ex_nested Missing = Inr ex_nested_merged
   \<and> clade_sum is_root_id ex_nested_merged = 20
   \<and> sum_list (map out_pct_reads (non_root_rows ex_nested_merged)) = 200"
  by code_simp

subsection \<open>Doubling and splitting\<close>

text \<open>
  C8. Let \<open>whole\<close> and \<open>half\<close> be reports that load to rows with the same keys, row by
  row, the \<open>reads_clade\<close> and \<open>reads_taxon\<close> of \<open>whole\<close> being twice those of \<open>half\<close>.
  Merging \<open>whole\<close> as the paired report alone gives the same table, hence the same
  \<open>reads_clade\<close> total per taxon, as merging \<open>half\<close> as both the paired and the unpaired
  report.
\<close>

theorem paired_only_equals_split:
  assumes "load_kraken_report num whole = Inr xs"
    and "load_kraken_report num half = Inr hs"
    and "list_all2 (\<lambda>x h. row_key x = row_key h \<and> reads_clade x = 2 * reads_clade h
                          \<and> reads_taxon x = 2 * reads_taxon h) xs hs"
  shows "merge_kraken_reports num whole Missing = merge_kraken_reports num half half"
proof -
  have pw: "present whole" using assms(1) by (cases whole) (simp_all add: present_def)
  have ph: "present half" using assms(2) by (cases half) (simp_all add: present_def)
  have iw: "input_rows num whole = Inr xs" using assms(1) pw by (simp add: input_rows_def)
  have ih: "input_rows num half = Inr hs" using assms(2) ph by (simp add: input_rows_def)
  have im: "input_rows num Missing = Inr []" by (simp add: input_rows_def present_def)
  have l: "merge_kraken_reports num whole Missing = Inr (merged_table (map double_reads (xs @ [])))"
    using pw iw im by (intro merge_kraken_reports_eq) simp_all
  have r: "merge_kraken_reports num half half = Inr (merged_table (map double_reads (hs @ hs)))"
    using ph ih by (intro merge_kraken_reports_eq) simp_all
  have keys: "map row_key xs = map row_key hs"
    using assms(3) by (induction rule: list_all2_induct) simp_all
  have clade: "group_sum reads_clade xs k = 2 * group_sum reads_clade hs k" for k
    using assms(3) by (induction rule: list_all2_induct) (simp_all add: group_sum_def)
  have taxon: "group_sum reads_taxon xs k = 2 * group_sum reads_taxon hs k" for k
    using assms(3) by (induction rule: list_all2_induct) (simp_all add: group_sum_def)
  have "row_key ` set xs = row_key ` set hs"
    using keys by (metis set_map)
  then have "row_key ` set (map double_reads xs) = row_key ` set (map double_reads (hs @ hs))"
    by (simp add: image_image)
  then have k: "group_keys (map double_reads xs) = group_keys (map double_reads (hs @ hs))"
    by (rule group_keys_cong)
  have "merged_table (map double_reads xs) = merged_table (map double_reads (hs @ hs))"
  proof (rule merged_table_cong [OF k])
    fix k
    show "group_sum reads_clade (map double_reads xs) k
            = group_sum reads_clade (map double_reads (hs @ hs)) k"
      by (simp only: group_sum_double_clade group_sum_append clade) simp
    show "group_sum reads_taxon (map double_reads xs) k
            = group_sum reads_taxon (map double_reads (hs @ hs)) k"
      by (simp only: group_sum_double_taxon group_sum_append taxon) simp
  qed
  with l r show ?thesis by simp
qed


text \<open>C8 at \<open>ex_unpaired_twice\<close> and \<open>ex_unpaired\<close>.\<close>

theorem paired_only_equals_split_witness:
  "merge_kraken_reports dec_numeric ex_unpaired_twice Missing
     = merge_kraken_reports dec_numeric ex_unpaired ex_unpaired
   \<and> merge_kraken_reports dec_numeric ex_unpaired ex_unpaired =
       Inr [\<lparr> out_pct_reads = 75, out_reads_clade = 12, out_reads_taxon = 12, out_rank = ''D'',
               out_tax_id = 2, out_name = ''Bacteria'' \<rparr>,
            \<lparr> out_pct_reads = 100, out_reads_clade = 16, out_reads_taxon = 4, out_rank = ''R'',
               out_tax_id = 1, out_name = ''root'' \<rparr>]"
proof -
  have a: "load_kraken_report dec_numeric ex_unpaired_twice
             = Inr (projr (load_kraken_report dec_numeric ex_unpaired_twice))"
    by (simp add: ex_unpaired_twice_def)
  have b: "load_kraken_report dec_numeric ex_unpaired
             = Inr (projr (load_kraken_report dec_numeric ex_unpaired))"
    by (simp add: ex_unpaired_def)
  have c: "list_all2 (\<lambda>x h. row_key x = row_key h \<and> reads_clade x = 2 * reads_clade h
                          \<and> reads_taxon x = 2 * reads_taxon h)
             (projr (load_kraken_report dec_numeric ex_unpaired_twice))
             (projr (load_kraken_report dec_numeric ex_unpaired))"
    by code_simp
  have e: "merge_kraken_reports dec_numeric ex_unpaired ex_unpaired =
       Inr [\<lparr> out_pct_reads = 75, out_reads_clade = 12, out_reads_taxon = 12, out_rank = ''D'',
               out_tax_id = 2, out_name = ''Bacteria'' \<rparr>,
            \<lparr> out_pct_reads = 100, out_reads_clade = 16, out_reads_taxon = 4, out_rank = ''R'',
               out_tax_id = 1, out_name = ''root'' \<rparr>]"
    by code_simp
  from paired_only_equals_split [OF a b c] e show ?thesis by simp
qed


subsection \<open>Second-classifier header scalars\<close>

lemma scan_header_total_kept:
  assumes "list_all (\<lambda>l. \<not> contains l ''reads processed'') (header_block ls)"
  shows "\<exists>c'. scan_header ls t c = Inr (t, c')"
  using assms
proof (induction ls arbitrary: c)
  case Nil
  then show ?case by simp
next
  case (Cons l ls)
  show ?case
  proof (cases "startswith l ''#''")
    case False
    then show ?thesis by simp
  next
    case True
    with Cons.prems have n: "\<not> contains l ''reads processed''"
      and r: "list_all (\<lambda>l. \<not> contains l ''reads processed'') (header_block ls)"
      by (simp_all add: header_block_def)
    from Cons.IH [OF r] True n show ?thesis by simp
  qed
qed

lemma scan_header_classified_kept:
  assumes "list_all (\<lambda>l. \<not> startswith l ''#estimated_reads_mapped_to_known_clades:'')
             (header_block ls)"
    and "scan_header ls t c = Inr (t', c')"
  shows "c' = c"
  using assms
proof (induction ls arbitrary: t)
  case Nil
  then show ?case by simp
next
  case (Cons l ls)
  show ?case
  proof (cases "startswith l ''#''")
    case False
    with Cons.prems show ?thesis by simp
  next
    case True
    with Cons.prems have n: "\<not> startswith l ''#estimated_reads_mapped_to_known_clades:''"
      and r: "list_all (\<lambda>l. \<not> startswith l ''#estimated_reads_mapped_to_known_clades:'')
                (header_block ls)"
      by (simp_all add: header_block_def)
    from Cons.prems(2) True n obtain t1 where "scan_header ls t1 c = Inr (t', c')"
      by (auto split: sum.splits if_splits)
    with Cons.IH [OF r] show ?thesis by blast
  qed
qed

lemma mpa_summary_Inr:
  assumes "mpa_summary num (Mpa ls fr) = Inr m"
  obtains t c df where "scan_header ls 0 0 = Inr (t, c)"
    and "load_metaphlan_table num fr = Inr df" and "m = mpa_totals t c df"
  using assms by (auto simp: mpa_summary_def split: sum.splits)

lemma summarize_classification_Inr:
  assumes "summarize_classification num paired unpaired mpa = Inr s"
  obtains k2 m where "kraken_summary num paired unpaired = Inr k2"
    and "mpa_summary num mpa = Inr m" and "s = k2 @ m"
  using assms by (auto simp: summarize_classification_def split: sum.splits)

lemma kraken_summary_keys:
  assumes "kraken_summary num paired unpaired = Inr k2"
  shows "k2 = [] \<or> (\<exists>df. k2 = kraken_totals df)"
  using assms by (auto simp: kraken_summary_def split: sum.splits if_splits)

lemma get_or_kraken_mpa:
  assumes "k2 = [] \<or> (\<exists>df. k2 = kraken_totals df)"
  shows "get_or (k2 @ mpa_totals t c df) ''TOTAL_READS_MPA'' 0 = t"
    and "get_or (k2 @ mpa_totals t c df) ''CLASSIFIED_READS_MPA'' 0 = c"
    and "get_or (k2 @ mpa_totals t c df) ''UNCLASSIFIED_READS_MPA'' 0 = max 0 (t - c)"
  using assms by (auto simp: get_or_def kraken_totals_def mpa_totals_def)

text \<open>
  Whenever the classification summary of a sample with a second-classifier report is
  produced, its total and classified counters are the two scalars of the header scan,
  its unclassified counter is \<open>max(0, total - classified)\<close> and so never negative, and a
  scalar whose label is on no line of the leading comment block is 0.
\<close>

lemma mpa_counters_of_summary:
  assumes "summarize_classification num paired unpaired (Mpa ls fr) = Inr s"
  shows "scan_header ls 0 0
           = Inr (get_or s ''TOTAL_READS_MPA'' 0, get_or s ''CLASSIFIED_READS_MPA'' 0)
       \<and> get_or s ''UNCLASSIFIED_READS_MPA'' 0
           = max 0 (get_or s ''TOTAL_READS_MPA'' 0 - get_or s ''CLASSIFIED_READS_MPA'' 0)
       \<and> 0 \<le> get_or s ''UNCLASSIFIED_READS_MPA'' 0
       \<and> (list_all (\<lambda>l. \<not> contains l ''reads processed'') (header_block ls)
            \<longrightarrow> get_or s ''TOTAL_READS_MPA'' 0 = 0)
       \<and> (list_all (\<lambda>l. \<not> startswith l ''#estimated_reads_mapped_to_known_clades:'')
              (header_block ls)
            \<longrightarrow> get_or s ''CLASSIFIED_READS_MPA'' 0 = 0)"
proof -
  from assms obtain k2 m where k: "kraken_summary num paired unpaired = Inr k2"
    and m: "mpa_summary num (Mpa ls fr) = Inr m" and s: "s = k2 @ m"
    by (rule summarize_classification_Inr)
  from m obtain t c df where h: "scan_header ls 0 0 = Inr (t, c)" and mt: "m = mpa_totals t c df"
    by (rule mpa_summary_Inr)
  note g = get_or_kraken_mpa [OF kraken_summary_keys [OF k], of t c df]
  have gt: "get_or s ''TOTAL_READS_MPA'' 0 = t" unfolding s mt by (rule g(1))
  have gc: "get_or s ''CLASSIFIED_READS_MPA'' 0 = c" unfolding s mt by (rule g(2))
  have gu: "get_or s ''UNCLASSIFIED_READS_MPA'' 0 = max 0 (t - c)" unfolding s mt by (rule g(3))
  have a: "t = 0" if "list_all (\<lambda>l. \<not> contains l ''reads processed'') (header_block ls)"
    using scan_header_total_kept [OF that, of 0 0] h by auto
  have b: "c = 0"
    if "list_all (\<lambda>l. \<not> startswith l ''#estimated_reads_mapped_to_known_clades:'')
          (header_block ls)"
    using scan_header_classified_kept [OF that h] .
  from h gt gc gu a b show ?thesis by simp
qed

text \<open>
  C9 fails on the code. The loop that looks for the count of processed reads indexes
  \<open>parts[i+1]\<close> and \<open>parts[i+2]\<close> for every digit token, with no check of the length and
  outside any \<open>try\<close>. A header line that has the label before the count, or the label
  and some other number near its end, raises \<open>IndexError\<close>: no unclassified count is
  derived, the scalar is not defaulted to 0 where it is absent, and the invocation
  ends fatally. The parse of the other scalar, two lines below, is inside a \<open>try\<close> and
  keeps 0 on a value it cannot read.
\<close>

theorem header_scan_index_error:
  "header_tokens (''#reads processed: 1000'' @ [NL]) = [''reads'', ''processed:'', ''1000'']
   \<and> summarize_classification dec_numeric ex_two_rows Missing ex_mpa_label_first
       = Inl IndexError
   \<and> main dec_numeric (ex_sample \<lparr> metaphlan_report := ex_mpa_label_first \<rparr>)
       = Fatal IndexError
   \<and> main dec_numeric (ex_sample \<lparr> metaphlan_report := ex_mpa_no_count \<rparr>)
       = Fatal IndexError
   \<and> scan_header [''#1000 reads processed'' @ [NL],
                   ''#estimated_reads_mapped_to_known_clades:n/a'' @ [NL]] 0 0
       = Inr (1000, 0)"
  by code_simp

subsection \<open>Second-classifier table\<close>

lemma trunc_minus_one: "trunc (- 1) = - 1"
proof -
  have "\<lceil>of_int (- 1) :: rat\<rceil> = - 1" by (rule ceiling_of_int)
  then show ?thesis by (simp add: trunc_def)
qed

text \<open>
  C10. A five-column table loads to one record per row. In a row whose \<open>clade_taxid\<close> cell
  is missing or not a number the record holds \<open>-1\<close>, while such a cell in
  \<open>relative_abundance\<close>, \<open>coverage\<close> or the estimated read count gives 0; with a positive
  primary-read count the normalized table is written from these records and carries the
  \<open>-1\<close> unchanged.
\<close>

theorem metaphlan_taxid_fallback:
  assumes "0 < primary_reads"
  shows "load_metaphlan_table num (Frame 5 rows) = Inr (map (clade_row num) rows)
       \<and> metaphlan_txt (write_normalized_tables num paired unpaired (Mpa ls (Frame 5 rows))
            primary_reads)
           = Some (map (\<lambda>r. clade_rpm primary_reads (clade_row num r)) rows)
       \<and> (\<forall>r \<in> set rows.
             (coerce num (cell_at r 1) = None \<longrightarrow>
                clade_taxid (clade_row num r) = - 1
              \<and> n_clade_taxid (clade_rpm primary_reads (clade_row num r)) = - 1)
           \<and> (coerce num (cell_at r 2) = None \<longrightarrow> relative_abundance (clade_row num r) = 0)
           \<and> (coerce num (cell_at r 3) = None \<longrightarrow> coverage (clade_row num r) = 0)
           \<and> (coerce num (cell_at r 4) = None \<longrightarrow>
                estimated_number_of_reads_from_the_clade (clade_row num r) = 0))"
  using assms
  by (simp add: write_normalized_tables_def mpa_normalized_def clade_row_def clade_rpm_def
      fillna_def trunc_minus_one comp_def)

text \<open>
  C10 at \<open>ex_mpa\<close>, whose second row has the taxid path \<open>2|1239\<close> and whose third row
  has no numeric coverage or read count.
\<close>

theorem metaphlan_taxid_fallback_witness:
  "(0::int) < 100
   \<and> coerce dec_numeric (cell_at (ex_mpa_rows ! 1) 1) = None
   \<and> coerce dec_numeric (cell_at (ex_mpa_rows ! 1) 2) = None
   \<and> coerce dec_numeric (cell_at (ex_mpa_rows ! 2) 3) = None
   \<and> coerce dec_numeric (cell_at (ex_mpa_rows ! 2) 4) = None
   \<and> map n_clade_taxid
        (the (metaphlan_txt (write_normalized_tables dec_numeric Missing Missing ex_mpa 100)))
       = [2, - 1, 2157]
   \<and> map n_relative_abundance
        (the (metaphlan_txt (write_normalized_tables dec_numeric Missing Missing ex_mpa 100)))
       = [100, 0, 0]
   \<and> map n_coverage
        (the (metaphlan_txt (write_normalized_tables dec_numeric Missing Missing ex_mpa 100)))
       = [1 / 2, 1 / 4, 0]
   \<and> map n_estimated_number_of_reads_from_the_clade
        (the (metaphlan_txt (write_normalized_tables dec_numeric Missing Missing ex_mpa 100)))
       = [700, 420, 0]"
proof -
  have p: "(0::int) < 100" by simp
  have a: "coerce dec_numeric (cell_at (ex_mpa_rows ! 1) 1) = None" by code_simp
  have b: "coerce dec_numeric (cell_at (ex_mpa_rows ! 1) 2) = None" by code_simp
  have c: "coerce dec_numeric (cell_at (ex_mpa_rows ! 2) 3) = None" by code_simp
  have d: "coerce dec_numeric (cell_at (ex_mpa_rows ! 2) 4) = None" by code_simp
  have e: "map (clade_row dec_numeric) ex_mpa_rows
           = [\<lparr> clade_name = ''k__Bacteria'', clade_taxid = 2, relative_abundance = 100,
                 coverage = 1 / 2, estimated_number_of_reads_from_the_clade = 700 \<rparr>,
              \<lparr> clade_name = ''k__Bacteria|p__Firmicutes'', clade_taxid = - 1,
                 relative_abundance = 0, coverage = 1 / 4,
                 estimated_number_of_reads_from_the_clade = 420 \<rparr>,
              \<lparr> clade_name = ''k__Archaea'', clade_taxid = 2157,
                 relative_abundance = 0, coverage = 0,
                 estimated_number_of_reads_from_the_clade = 0 \<rparr>]"
    by code_simp
  note t = metaphlan_taxid_fallback [OF p, of dec_numeric ex_mpa_rows Missing Missing
      ex_mpa_lines]
  from t have "metaphlan_txt (write_normalized_tables dec_numeric Missing Missing ex_mpa 100)
      = Some (map (clade_rpm 100) (map (clade_row dec_numeric) ex_mpa_rows))"
    by (simp add: ex_mpa_def ex_mpa_frame_def comp_def)
  then show ?thesis using p a b c d unfolding e by (simp add: clade_rpm_def)
qed

subsection \<open>Normalizer and invocation\<close>





text \<open>
  C5 fails on the code. \<open>summarize_classification\<close> catches \<open>FileNotFoundError\<close> only: a
  first-classifier report of seven columns raises \<open>ValueError\<close>, a second-classifier
  table of four columns raises \<open>RuntimeError\<close>, each escapes \<open>main\<close> and ends the
  invocation fatally before the summary row is written, although the other classifier's
  report and the filter statistics are sound. \<open>write_normalized_tables\<close> does recover
  from the same seven-column report: it skips the first-classifier table and writes the
  second-classifier one.
\<close>

theorem malformed_report_is_fatal:
  "main dec_numeric ex_sample_malformed_kraken = Fatal ValueError
   \<and> main dec_numeric ex_sample_malformed_mpa = Fatal RuntimeError
   \<and> write_normalized_tables dec_numeric ex_seven_columns Missing ex_mpa 100 =
       \<lparr> kraken_txt = None,
         metaphlan_txt = Some
           [\<lparr> n_clade_name = ''k__Bacteria'', n_clade_taxid = 2,
               n_estimated_number_of_reads_from_the_clade = 700,
               estimated_number_of_reads_from_the_clade_per_million = 7000000,
               n_relative_abundance = 100, n_coverage = 1 / 2 \<rparr>,
            \<lparr> n_clade_name = ''k__Bacteria|p__Firmicutes'', n_clade_taxid = - 1,
               n_estimated_number_of_reads_from_the_clade = 420,
               estimated_number_of_reads_from_the_clade_per_million = 4200000,
               n_relative_abundance = 0, n_coverage = 1 / 4 \<rparr>,
            \<lparr> n_clade_name = ''k__Archaea'', n_clade_taxid = 2157,
               n_estimated_number_of_reads_from_the_clade = 0,
               estimated_number_of_reads_from_the_clade_per_million = 0,
               n_relative_abundance = 0, n_coverage = 0 \<rparr>] \<rparr>"
  by code_simp

end
